theory Spec2Isabelle
  imports Main "HOL-Library.Multiset" "HOL-Library.Product_Lexorder"
begin

section \<open>Strings as Python handles them\<close>

text \<open>
  Codes of controls and punches are Python \<open>str\<close> values; here they are \<open>string\<close>
  (lists of 8-bit characters), so the model covers ASCII text.  The functions below are
  the \<open>str\<close> methods that \<open>result_checker.py\<close> calls.
\<close>

definition is_digit_char :: "char \<Rightarrow> bool" where
  "is_digit_char c = (c \<in> set ''0123456789'')"

text \<open>\<open>s.isdigit()\<close>: a non-empty string of decimal digits.\<close>

definition isdigit :: "string \<Rightarrow> bool" where
  "isdigit s = (s \<noteq> [] \<and> list_all is_digit_char s)"

text \<open>The ASCII characters that \<open>str.strip()\<close> removes when called without argument.\<close>

definition is_space_char :: "char \<Rightarrow> bool" where
  "is_space_char c =
     (c \<in> set [CHR '' '', CHR 0x09, CHR 0x0A, CHR 0x0B, CHR 0x0C, CHR 0x0D,
                 CHR 0x1C, CHR 0x1D, CHR 0x1E, CHR 0x1F])"

text \<open>\<open>s.strip(chars)\<close> and \<open>s.strip()\<close>.\<close>

definition strip_chars :: "string \<Rightarrow> string \<Rightarrow> string" where
  "strip_chars cs s =
     rev (dropWhile (\<lambda>c. c \<in> set cs) (rev (dropWhile (\<lambda>c. c \<in> set cs) s)))"

definition strip :: "string \<Rightarrow> string" where
  "strip s = rev (dropWhile is_space_char (rev (dropWhile is_space_char s)))"

text \<open>\<open>s.split(sep)\<close> for a one-character separator: never the empty list.\<close>

fun py_split :: "char \<Rightarrow> string \<Rightarrow> string list" where
  "py_split sep [] = [[]]"
| "py_split sep (c # cs) =
     (if c = sep then [] # py_split sep cs
      else (case py_split sep cs of
              [] \<Rightarrow> [[c]]
            | w # ws \<Rightarrow> (c # w) # ws))"

text \<open>\<open>s.lower()\<close> on ASCII letters.\<close>

definition lower_char :: "char \<Rightarrow> char" where
  "lower_char c =
     (if (65::nat) \<le> of_char c \<and> of_char c \<le> (90::nat)
      then char_of (of_char c + (32::nat)) else c)"

definition lower :: "string \<Rightarrow> string" where
  "lower s = map lower_char s"

text \<open>\<open>s.find(sub) > -1\<close>: \<open>sub\<close> occurs in \<open>s\<close>.\<close>

fun contains :: "string \<Rightarrow> string \<Rightarrow> bool" where
  "contains [] sub = (sub = [])"
| "contains (c # cs) sub = (take (length sub) (c # cs) = sub \<or> contains cs sub)"

text \<open>
  \<open>int(s)\<close> on a string: surrounding white space is dropped, a sign may lead, and the
  digits may be grouped by single underscores.  \<open>None\<close> stands for the \<open>ValueError\<close> that
  Python raises on any other string.
\<close>

fun digits_value :: "string \<Rightarrow> int \<Rightarrow> int" where
  "digits_value [] acc = acc"
| "digits_value (c # cs) acc =
     (if is_digit_char c then digits_value cs (10 * acc + (int (of_char c) - 48))
      else digits_value cs acc)"

fun int_body_ok :: "string \<Rightarrow> bool" where
  "int_body_ok [] = False"
| "int_body_ok [c] = is_digit_char c"
| "int_body_ok (c # d # cs) =
     (is_digit_char c \<and> (if d = CHR ''_'' then int_body_ok cs else int_body_ok (d # cs)))"

definition py_int :: "string \<Rightarrow> int option" where
  "py_int s =
     (let t = strip s;
          neg = (t \<noteq> [] \<and> hd t = CHR ''-'');
          body = (if t \<noteq> [] \<and> (hd t = CHR ''-'' \<or> hd t = CHR ''+'') then tl t else t)
      in if int_body_ok body
         then Some (if neg then - digits_value body 0 else digits_value body 0)
         else None)"

section \<open>The data model\<close>

text \<open>
  Modelled from the spec: the class \<open>OTime\<close> (module \<open>sportorg.common.otime\<close>) is
  declared outside the source files at hand.  It is a time of day or a duration, and the
  specification gives times in minutes and seconds and settings in milliseconds.  The
  model takes a time as its count of milliseconds: comparison, sum, difference and the
  product with a number act on that count, \<open>OTime()\<close> is \<open>0\<close>, \<open>to_msec\<close> is the count
  itself and \<open>to_sec\<close> is the count of whole seconds.
\<close>

type_synonym OTime = int

definition to_sec :: "OTime \<Rightarrow> int" where
  "to_sec t = t div 1000"

text \<open>
  Modelled from the spec: the enumeration \<open>ResultStatus\<close> and the classes of the data
  model (module \<open>sportorg.models.memory\<close>) are declared outside the source files at
  hand.  \<open>ResultStatus\<close> has the members that the specification's data model lists; the
  records below have the fields that the specification lists and that the checker and
  the ranking read or write, and a result has its start and its finish time besides.
\<close>

datatype ResultStatus =
    OK | OVERTIME | MISSING_PUNCH | DISQUALIFIED | DID_NOT_START | DID_NOT_FINISH
  | MISS_PENALTY_LAP | MULTI_DAY_ISSUE

text \<open>A control of a course: \<open>code\<close> is the control-code expression.\<close>

record CourseControl =
  control_code :: string
  control_length :: int
  control_score :: int

record Course =
  controls :: "CourseControl list"
  course_length :: int

record Group =
  group_name :: string
  max_time :: OTime
  is_any_course :: bool

record Person =
  group :: "Group option"
  bib :: int

text \<open>One punch.  \<open>leg_place\<close> and \<open>relative_place\<close> are filled in by the group ranking.\<close>

record Split =
  split_code :: string
  split_time :: OTime
  is_correct :: bool
  has_penalty :: bool
  course_index :: int
  leg_time :: OTime
  relative_time :: OTime
  leg_place :: int
  relative_place :: int
  leader_time :: "OTime option"

record Result =
  person :: "Person option"
  splits :: "Split list"
  status :: ResultStatus
  status_comment :: string
  start_time :: OTime
  finish_time :: OTime
  penalty_time :: OTime
  penalty_laps :: int
  credit_time :: OTime
  rogaine_score :: int
  rogaine_penalty :: int
  scores_ardf :: int
  trailo_score :: int
  trailo_score_penalty :: int
  trailo_time :: OTime

section \<open>Penalty calculation\<close>

subsection \<open>\<open>get_marked_route_incorrect_list\<close>\<close>

text \<open>
  The inner loop over the members \<open>cp\<close> of one choice set: a member that is a digit
  string other than \<open>correct\<close> is appended to \<open>ret\<close> unless it is there already.
\<close>

fun incorrect_members :: "string \<Rightarrow> string list \<Rightarrow> string list \<Rightarrow> string list" where
  "incorrect_members correct [] ret = ret"
| "incorrect_members correct (cp0 # cps) ret =
     (let cp = strip (strip_chars '')'' cp0)
      in if cp \<noteq> correct \<and> isdigit cp
         then (if cp \<notin> set ret then incorrect_members correct cps (ret @ [cp])
               else incorrect_members correct cps ret)
         else incorrect_members correct cps ret)"

text \<open>
  The body of the outer loop for one control code.  \<open>code_str.split("(")[1]\<close> exists
  because the code contains a \<open>(\<close>.
\<close>

definition incorrect_of_code :: "string \<Rightarrow> string list \<Rightarrow> string list" where
  "incorrect_of_code code_str ret =
     (if code_str \<noteq> [] \<and> CHR ''('' \<in> set code_str
      then (let correct = strip (py_split (CHR ''('') code_str ! 0)
            in if isdigit correct
               then incorrect_members correct
                      (py_split (CHR '','') (py_split (CHR ''('') code_str ! 1)) ret
               else ret)
      else ret)"

fun incorrect_loop :: "CourseControl list \<Rightarrow> string list \<Rightarrow> string list" where
  "incorrect_loop [] ret = ret"
| "incorrect_loop (i # cs) ret = incorrect_loop cs (incorrect_of_code (control_code i) ret)"

definition get_marked_route_incorrect_list :: "CourseControl list \<Rightarrow> string list" where
  "get_marked_route_incorrect_list cs = incorrect_loop cs []"

subsection \<open>\<open>penalty_calculation\<close>\<close>

text \<open>
  The marked-route branch: one penalty for every member of \<open>incorrect_array\<close> that the
  athlete punched.
\<close>

fun choice_penalty :: "string list \<Rightarrow> string list \<Rightarrow> int \<Rightarrow> int" where
  "choice_penalty [] user_array res = res"
| "choice_penalty (i # rest) user_array res =
     (if i \<in> set user_array then choice_penalty rest user_array (res + 1)
      else choice_penalty rest user_array res)"

text \<open>
  The classic branch: every course code removes one punch, code \<open>"0"\<close> the first punch
  of those left (\<open>del user_array[0]\<close>), any other code its first occurrence
  (\<open>user_array.remove(i)\<close>).
\<close>

fun classic_consume :: "string list \<Rightarrow> string list \<Rightarrow> string list" where
  "classic_consume [] user_array = user_array"
| "classic_consume (i # rest) user_array =
     (if i = ''0'' \<and> user_array \<noteq> [] then classic_consume rest (tl user_array)
      else if i \<in> set user_array then classic_consume rest (remove1 i user_array)
      else classic_consume rest user_array)"

text \<open>
  \<open>CourseControl.get_number_code\<close> is defined outside \<open>result_checker.py\<close>; the
  calculation takes it as the parameter \<open>gnc\<close>.
\<close>

definition penalty_calculation ::
  "(CourseControl \<Rightarrow> string) \<Rightarrow> Split list \<Rightarrow> CourseControl list \<Rightarrow> bool \<Rightarrow> int" where
  "penalty_calculation gnc spl cs check_existence =
     (let user_array = map split_code spl;
          origin_array = map gnc cs;
          res = (if check_existence \<and> length user_array < length origin_array
                 then int (length origin_array) - int (length user_array) else 0);
          incorrect_array = get_marked_route_incorrect_list cs
      in if incorrect_array \<noteq> [] then choice_penalty incorrect_array user_array res
         else res + int (length (classic_consume origin_array user_array)))"

subsection \<open>\<open>penalty_calculation_free_order\<close>\<close>

fun free_order_count :: "Split list \<Rightarrow> int \<Rightarrow> int" where
  "free_order_count [] correct_count = correct_count"
| "free_order_count (i # rest) correct_count =
     (if \<not> has_penalty i then free_order_count rest (correct_count + 1)
      else free_order_count rest correct_count)"

definition penalty_calculation_free_order :: "Split list \<Rightarrow> CourseControl list \<Rightarrow> int" where
  "penalty_calculation_free_order spl cs =
     0 + max (int (length cs) - free_order_count spl 0) 0"

section \<open>The race: settings and collaborators\<close>

text \<open>
  \<open>race()\<close> is the global race object.  The record holds what the checker reads from
  it: the settings, each under its key and with the value that \<open>get_setting\<close> returns
  (the default when the key is unset), the race-wide list of controls, and the
  operations of \<open>Race\<close>, \<open>Result\<close>, \<open>CourseControl\<close> and \<open>StatusComments\<close> that are defined
  outside \<open>result_checker.py\<close>.  These operations are parameters of the model:
  \<^item> \<open>find_course\<close> is \<open>race().find_course(result)\<close>, \<open>None\<close> when there is no course;
  \<^item> \<open>result_check\<close> is \<open>result.check(course)\<close>: it returns the flag and the result as
    the call leaves it;
  \<^item> \<open>get_result_otime\<close> is \<open>result.get_result_otime()\<close>;
  \<^item> \<open>get_number_code\<close> is \<open>control.get_number_code()\<close>;
  \<^item> \<open>get_status_default_comment\<close> is the method of \<open>StatusComments\<close>.
  Scores are integers in the model.
\<close>

record Race =
  result_processing_mode :: string
  marked_route_dont_dsq :: bool
  marked_route_mode :: string
  marked_route_if_station_check :: bool
  marked_route_penalty_lap_station_code :: int
  marked_route_max_penalty_by_cp :: bool
  marked_route_penalty_time :: int
  credit_time_enabled :: bool
  credit_time_cp :: int
  result_processing_scores_allow_duplicates :: bool
  result_processing_scores_minute_penalty :: int
  result_processing_scores_max_overrun_time :: int
  result_processing_score_mode :: string
  result_processing_fixed_score_value :: int
  race_controls :: "CourseControl list"
  find_course :: "Result \<Rightarrow> Course option"
  result_check :: "Result \<Rightarrow> Course option \<Rightarrow> bool \<times> Result"
  get_result_otime :: "Result \<Rightarrow> OTime"
  get_number_code :: "CourseControl \<Rightarrow> string"
  get_status_default_comment :: "ResultStatus \<Rightarrow> string"

text \<open>
  Exceptions are values.  \<open>ValueError\<close> comes from \<open>int(...)\<close> on a code that is no
  integer literal, \<open>IndexError\<close> from \<open>code[-1]\<close> on an empty code.  A procedure that
  works on a result in place ends in \<open>Return v r\<close>, with its value and the result as it
  leaves it, or in \<open>Raise e r\<close>, with the result as it stands when \<open>e\<close> is raised.
\<close>

datatype error = ResultCheckerException | ValueError | IndexError

datatype 'a outcome = Return 'a Result | Raise error Result

text \<open>\<open>result.person and result.person.group\<close>: the group when both are there.\<close>

definition person_group :: "Result \<Rightarrow> Group option" where
  "person_group r = (case person r of None \<Rightarrow> None | Some p \<Rightarrow> group p)"

subsection \<open>\<open>detach_penalty_laps2\<close>\<close>

text \<open>
  The two comprehensions.  \<open>int(punch.code)\<close> is evaluated for a punch of the first one
  only when the punch is not correct, and for every punch of the second one.
\<close>

fun detach_regular :: "Split list \<Rightarrow> int \<Rightarrow> error + Split list" where
  "detach_regular [] lap_station = Inr []"
| "detach_regular (punch # rest) lap_station =
     (if is_correct punch
      then (case detach_regular rest lap_station of
              Inl e \<Rightarrow> Inl e | Inr xs \<Rightarrow> Inr (punch # xs))
      else (case py_int (split_code punch) of
              None \<Rightarrow> Inl ValueError
            | Some c \<Rightarrow>
                (case detach_regular rest lap_station of
                   Inl e \<Rightarrow> Inl e
                 | Inr xs \<Rightarrow> Inr (if c \<noteq> lap_station then punch # xs else xs))))"

fun detach_penalty :: "Split list \<Rightarrow> int \<Rightarrow> error + Split list" where
  "detach_penalty [] lap_station = Inr []"
| "detach_penalty (punch # rest) lap_station =
     (case py_int (split_code punch) of
        None \<Rightarrow> Inl ValueError
      | Some c \<Rightarrow>
          (case detach_penalty rest lap_station of
             Inl e \<Rightarrow> Inl e
           | Inr xs \<Rightarrow> Inr (if c = lap_station \<and> \<not> is_correct punch then punch # xs else xs)))"

definition detach_penalty_laps2 ::
  "Split list \<Rightarrow> int \<Rightarrow> error + Split list \<times> Split list" where
  "detach_penalty_laps2 spl lap_station =
     (if spl = [] then Inr ([], [])
      else (case detach_regular spl lap_station of
              Inl e \<Rightarrow> Inl e
            | Inr regular \<Rightarrow>
                (case detach_penalty spl lap_station of
                   Inl e \<Rightarrow> Inl e
                 | Inr penalty \<Rightarrow> Inr (regular, penalty))))"

subsection \<open>\<open>check_penalty_laps\<close>\<close>

definition check_penalty_laps :: "Race \<Rightarrow> Result \<Rightarrow> error + bool" where
  "check_penalty_laps race result =
     (if marked_route_mode race = ''laps'' \<and> marked_route_if_station_check race
      then (case detach_penalty_laps2 (splits result)
                   (marked_route_penalty_lap_station_code race) of
              Inl e \<Rightarrow> Inl e
            | Inr (regular, penalty) \<Rightarrow>
                Inr (\<not> (int (length penalty) < penalty_laps result)))
      else Inr True)"

subsection \<open>\<open>credit_calculation\<close> and \<open>calculate_credit_time\<close>\<close>

text \<open>
  The loop over \<open>enumerate(splits)\<close>; \<open>prev\<close> is \<open>splits[idx - 1]\<close>, absent at \<open>idx = 0\<close>.
\<close>

fun credit_loop :: "Split option \<Rightarrow> Split list \<Rightarrow> int \<Rightarrow> OTime \<Rightarrow> error + OTime" where
  "credit_loop prev [] credit_cp result_credit_time = Inr result_credit_time"
| "credit_loop prev (s # rest) credit_cp result_credit_time =
     (case py_int (split_code s) of
        None \<Rightarrow> Inl ValueError
      | Some c \<Rightarrow>
          (case prev of
             None \<Rightarrow> credit_loop (Some s) rest credit_cp result_credit_time
           | Some p \<Rightarrow>
               (if c = credit_cp
                then credit_loop (Some s) rest credit_cp
                       (result_credit_time + (split_time s - split_time p))
                else credit_loop (Some s) rest credit_cp result_credit_time)))"

definition credit_calculation :: "Split list \<Rightarrow> int \<Rightarrow> error + OTime" where
  "credit_calculation spl credit_cp = credit_loop None spl credit_cp 0"

definition calculate_credit_time :: "Race \<Rightarrow> Result \<Rightarrow> unit outcome" where
  "calculate_credit_time race result =
     (if \<not> credit_time_enabled race then Return () result
      else (case credit_calculation (splits result) (credit_time_cp race) of
              Inl e \<Rightarrow> Raise e result
            | Inr t \<Rightarrow> Return () (result\<lparr>credit_time := t\<rparr>)))"

subsection \<open>\<open>penalty_calculation_trailo\<close>\<close>

text \<open>
  \<open>code[:-1]\<close> is \<open>butlast code\<close>.  Where \<open>int(code[:-1])\<close> has returned, the code is not
  empty and \<open>code[-1]\<close> is \<open>last code\<close>.  The inner loop tells whether it ended in the
  \<open>break\<close>.
\<close>

fun trailo_penalty_inner :: "string \<Rightarrow> int \<Rightarrow> Split list \<Rightarrow> error + bool" where
  "trailo_penalty_inner cp_code control_point_code [] = Inr False"
| "trailo_penalty_inner cp_code control_point_code (cur_split # rest) =
     (case py_int (butlast (split_code cur_split)) of
        None \<Rightarrow> Inl ValueError
      | Some cur_code \<Rightarrow>
          (if cur_code = control_point_code \<and> last cp_code \<noteq> CHR ''T''
              \<and> last (split_code cur_split) \<noteq> last cp_code
           then Inr True
           else trailo_penalty_inner cp_code control_point_code rest))"

fun trailo_penalty_loop ::
  "OTime \<Rightarrow> Split list \<Rightarrow> CourseControl list \<Rightarrow> OTime \<Rightarrow> error + OTime" where
  "trailo_penalty_loop one_penalty spl [] res = Inr res"
| "trailo_penalty_loop one_penalty spl (control_point # rest) res =
     (case py_int (butlast (control_code control_point)) of
        None \<Rightarrow> Inl ValueError
      | Some control_point_code \<Rightarrow>
          (if control_point_code < 100 then trailo_penalty_loop one_penalty spl rest res
           else (case trailo_penalty_inner (control_code control_point) control_point_code spl of
                   Inl e \<Rightarrow> Inl e
                 | Inr found \<Rightarrow>
                     trailo_penalty_loop one_penalty spl rest
                       (if found then res + one_penalty else res))))"

definition penalty_calculation_trailo ::
  "Race \<Rightarrow> Split list \<Rightarrow> CourseControl list \<Rightarrow> error + OTime" where
  "penalty_calculation_trailo race spl cs =
     trailo_penalty_loop (marked_route_penalty_time race) spl cs 0"

subsection \<open>\<open>calculate_penalty\<close>\<close>

definition calculate_trailo_penalty :: "Race \<Rightarrow> Result \<Rightarrow> Course \<Rightarrow> unit outcome" where
  "calculate_trailo_penalty race result course =
     (case penalty_calculation_trailo race (splits result) (controls course) of
        Inl e \<Rightarrow> Raise e result
      | Inr t \<Rightarrow> Return () (result\<lparr>penalty_time := t\<rparr>))"

text \<open>
  \<open>_calculate_standard_penalty\<close> is reached with a person and a group; \<open>g\<close> is that
  group.  The second part runs on the result after the penalty laps have been detached.
\<close>

definition standard_penalty_mode :: "Group \<Rightarrow> string \<Rightarrow> string" where
  "standard_penalty_mode g mode0 =
     (let mode1 = (if contains (lower (group_name g)) ''_min'' then ''time'' else mode0)
      in if contains (lower (group_name g)) ''_lap'' then ''laps'' else mode1)"

definition standard_penalty_assign :: "Race \<Rightarrow> Result \<Rightarrow> Course \<Rightarrow> string \<Rightarrow> Result" where
  "standard_penalty_assign race result course mode =
     (let penalty0 =
            (if marked_route_dont_dsq race
             then penalty_calculation_free_order (splits result) (controls course)
             else penalty_calculation (get_number_code race) (splits result)
                    (controls course) True);
          penalty =
            (if marked_route_max_penalty_by_cp race
             then min (int (length (controls course))) penalty0 else penalty0);
          r1 = result\<lparr>penalty_laps := 0, penalty_time := 0\<rparr>
      in if mode = ''laps'' then r1\<lparr>penalty_laps := penalty\<rparr>
         else if mode = ''time''
              then r1\<lparr>penalty_time := marked_route_penalty_time race * penalty\<rparr>
              else r1)"

definition calculate_standard_penalty ::
  "Race \<Rightarrow> Result \<Rightarrow> Group \<Rightarrow> Course \<Rightarrow> string \<Rightarrow> unit outcome" where
  "calculate_standard_penalty race result g course mode0 =
     (let mode = standard_penalty_mode g mode0
      in if mode = ''laps'' \<and> marked_route_if_station_check race
         then (case detach_penalty_laps2 (splits result)
                      (marked_route_penalty_lap_station_code race) of
                 Inl e \<Rightarrow> Raise e result
               | Inr (regular, penalty) \<Rightarrow>
                   Return () (standard_penalty_assign race
                                (result\<lparr>splits := regular\<rparr>) course mode))
         else Return () (standard_penalty_assign race result course mode))"

definition calculate_penalty :: "Race \<Rightarrow> Result \<Rightarrow> unit outcome" where
  "calculate_penalty race result =
     (let mode = marked_route_mode race
      in if mode = ''off'' then Return () result
         else (case person_group result of
                 None \<Rightarrow> Return () result
               | Some g \<Rightarrow>
                   (case find_course race result of
                      None \<Rightarrow> Return () result
                    | Some course \<Rightarrow>
                        (if result_processing_mode race = ''trailo''
                         then calculate_trailo_penalty race result course
                         else calculate_standard_penalty race result g course mode))))"

section \<open>Score calculation\<close>

subsection \<open>Rogaine\<close>

text \<open>
  \<open>find(obj.controls, code=str(code))\<close> is the first control of the race with that code.
  A control counts when it is there and its score is not zero.
\<close>

definition get_control_score :: "Race \<Rightarrow> string \<Rightarrow> error + int" where
  "get_control_score race code =
     (case List.find (\<lambda>c. control_code c = code) (race_controls race) of
        Some control \<Rightarrow>
          (if control_score control \<noteq> 0 then Inr (control_score control)
           else if result_processing_score_mode race = ''fixed''
                then Inr (result_processing_fixed_score_value race)
                else (case py_int code of None \<Rightarrow> Inl ValueError | Some n \<Rightarrow> Inr (n div 10)))
      | None \<Rightarrow>
          (if result_processing_score_mode race = ''fixed''
           then Inr (result_processing_fixed_score_value race)
           else (case py_int code of None \<Rightarrow> Inl ValueError | Some n \<Rightarrow> Inr (n div 10))))"

fun rogaine_loop ::
  "Race \<Rightarrow> bool \<Rightarrow> Split list \<Rightarrow> string list \<Rightarrow> int \<Rightarrow> error + int" where
  "rogaine_loop race allow_duplicates [] user_array score = Inr score"
| "rogaine_loop race allow_duplicates (cur_split # rest) user_array score =
     (let code = split_code cur_split
      in if code \<notin> set user_array \<or> allow_duplicates
         then (case get_control_score race code of
                 Inl e \<Rightarrow> Inl e
               | Inr v \<Rightarrow>
                   rogaine_loop race allow_duplicates rest (user_array @ [code]) (score + v))
         else rogaine_loop race allow_duplicates rest user_array score)"

definition calculate_rogaine_score :: "Race \<Rightarrow> Result \<Rightarrow> bool \<Rightarrow> error + int" where
  "calculate_rogaine_score race result allow_duplicates =
     rogaine_loop race allow_duplicates (splits result) [] 0"

definition calculate_rogaine_penalty :: "Race \<Rightarrow> Result \<Rightarrow> int \<Rightarrow> int \<Rightarrow> int" where
  "calculate_rogaine_penalty race result score penalty_step =
     (let penalty =
            (case person_group result of
               None \<Rightarrow> 0
             | Some g \<Rightarrow>
                 (let user_time = get_result_otime race result;
                      max_t = max_time g
                  in if 0 < max_t \<and> max_t < user_time
                     then (let time_diff = user_time - max_t;
                               seconds_diff = to_sec time_diff;
                               minutes_diff = (seconds_diff + 59) div 60
                           in minutes_diff * penalty_step)
                     else 0))
      in min penalty score)"

subsection \<open>ARDF\<close>

text \<open>
  The \<open>while\<close> loop for one punch \<open>code\<close>.  It returns the cursor \<open>index_in_order\<close>, the
  list \<open>user_array\<close> and the score \<open>ret\<close> as they stand when the loop is left, by a
  \<open>break\<close> or because the cursor has passed the last control.
\<close>

function ardf_while ::
  "string list \<Rightarrow> string \<Rightarrow> nat \<Rightarrow> nat \<Rightarrow> string list \<Rightarrow> int
     \<Rightarrow> nat \<times> string list \<times> int" where
  "ardf_while correct_order code initial_index index_in_order user_array ret =
     (if index_in_order < length correct_order
      then (if CHR ''?'' \<in> set (correct_order ! index_in_order)
            then (if CHR ''('' \<in> set (correct_order ! index_in_order)
                     \<and> CHR '')'' \<in> set (correct_order ! index_in_order)
                  then (if code \<in> set (py_split (CHR '','')
                                       (strip_chars ''?()'' (correct_order ! index_in_order)))
                           \<and> code \<notin> set user_array
                        then (initial_index + 1, user_array @ [code], ret + 1)
                        else ardf_while correct_order code initial_index
                               (index_in_order + 1) user_array ret)
                  else (if code \<notin> set user_array
                        then (initial_index + 1, user_array @ [code], ret + 1)
                        else ardf_while correct_order code initial_index
                               (index_in_order + 1) user_array ret))
            else (if code = correct_order ! index_in_order
                  then (if code \<notin> set user_array
                        then (index_in_order + 1, user_array @ [code], ret + 1)
                        else (index_in_order + 1, user_array, ret))
                  else (initial_index, user_array, ret)))
      else (index_in_order, user_array, ret))"
  by pat_completeness auto
termination
  by (relation "measure (\<lambda>(correct_order, code, initial_index, index_in_order, user_array, ret).
                    length correct_order - index_in_order)") auto

declare ardf_while.simps [simp del]

text \<open>The \<open>for\<close> loop over the punches.\<close>

fun ardf_loop ::
  "string list \<Rightarrow> Split list \<Rightarrow> nat \<Rightarrow> string list \<Rightarrow> int \<Rightarrow> nat \<times> string list \<times> int" where
  "ardf_loop correct_order [] index_in_order user_array ret = (index_in_order, user_array, ret)"
| "ardf_loop correct_order (cur_split # rest) index_in_order user_array ret =
     (case ardf_while correct_order (split_code cur_split) index_in_order index_in_order
             user_array ret of
        (i, ua, r) \<Rightarrow> ardf_loop correct_order rest i ua r)"

text \<open>
  \<open>calculate_scores_ardf\<close> returns the score and may set the status of the result.
\<close>

definition calculate_scores_ardf :: "Race \<Rightarrow> Result \<Rightarrow> int \<times> Result" where
  "calculate_scores_ardf race result =
     (case find_course race result of
        None \<Rightarrow> (0, result)
      | Some course \<Rightarrow>
          (case ardf_loop (map control_code (controls course)) (splits result) 0 [] 0 of
             (i, ua, ret) \<Rightarrow>
               (case person_group result of
                  None \<Rightarrow> (ret, result)
                | Some g \<Rightarrow>
                    (if 0 < max_time g \<and> max_time g < get_result_otime race result
                     then (0, result\<lparr>status := DISQUALIFIED\<rparr>)
                     else (ret, result)))))"

subsection \<open>Trail-O\<close>

fun trailo_score_inner :: "string \<Rightarrow> Split list \<Rightarrow> error + bool" where
  "trailo_score_inner cp_code [] = Inr False"
| "trailo_score_inner cp_code (cur_split # rest) =
     (case py_int (butlast (split_code cur_split)) of
        None \<Rightarrow> Inl ValueError
      | Some cur_code \<Rightarrow>
          (case py_int (butlast cp_code) of
             None \<Rightarrow> Inl ValueError
           | Some n \<Rightarrow>
               (if cur_code = n \<and> last (split_code cur_split) = last cp_code then Inr True
                else trailo_score_inner cp_code rest)))"

fun trailo_score_loop :: "Split list \<Rightarrow> CourseControl list \<Rightarrow> int \<Rightarrow> error + int" where
  "trailo_score_loop spl [] ret = Inr ret"
| "trailo_score_loop spl (control_point # rest) ret =
     (case py_int (butlast (control_code control_point)) of
        None \<Rightarrow> Inl ValueError
      | Some n \<Rightarrow>
          (if n \<ge> 100 then trailo_score_loop spl rest ret
           else (case trailo_score_inner (control_code control_point) spl of
                   Inl e \<Rightarrow> Inl e
                 | Inr found \<Rightarrow> trailo_score_loop spl rest (if found then ret + 1 else ret))))"

definition calculate_scores_trailo :: "Race \<Rightarrow> Result \<Rightarrow> error + int" where
  "calculate_scores_trailo race result =
     (case find_course race result of
        None \<Rightarrow> Inr 0
      | Some course \<Rightarrow> trailo_score_loop (splits result) (controls course) 0)"

text \<open>
  In \<open>calculate_time_trailo\<close> the test \<open>control_point.code[-1] != "T"\<close> comes first, so an
  empty control code raises \<open>IndexError\<close>.  The inner loop returns the time of the first
  matching punch, if there is one.
\<close>

fun trailo_time_inner :: "string \<Rightarrow> Split list \<Rightarrow> error + OTime option" where
  "trailo_time_inner cp_code [] = Inr None"
| "trailo_time_inner cp_code (cur_split # rest) =
     (case py_int (butlast (split_code cur_split)) of
        None \<Rightarrow> Inl ValueError
      | Some cur_code \<Rightarrow>
          (case py_int (butlast cp_code) of
             None \<Rightarrow> Inl ValueError
           | Some n \<Rightarrow>
               (if cur_code = n \<and> last (split_code cur_split) = CHR ''T''
                then Inr (Some (split_time cur_split))
                else trailo_time_inner cp_code rest)))"

fun trailo_time_loop :: "Split list \<Rightarrow> CourseControl list \<Rightarrow> OTime \<Rightarrow> error + OTime" where
  "trailo_time_loop spl [] ret = Inr ret"
| "trailo_time_loop spl (control_point # rest) ret =
     (if control_code control_point = [] then Inl IndexError
      else if last (control_code control_point) \<noteq> CHR ''T'' then trailo_time_loop spl rest ret
      else (case trailo_time_inner (control_code control_point) spl of
              Inl e \<Rightarrow> Inl e
            | Inr None \<Rightarrow> trailo_time_loop spl rest ret
            | Inr (Some t) \<Rightarrow> trailo_time_loop spl rest (ret + t)))"

definition calculate_time_trailo :: "Race \<Rightarrow> Result \<Rightarrow> error + OTime" where
  "calculate_time_trailo race result =
     (case find_course race result of
        None \<Rightarrow> Inr 0
      | Some course \<Rightarrow> trailo_time_loop (splits result) (controls course) 0)"

section \<open>The result status engine\<close>

subsection \<open>The mode handlers\<close>

definition process_ardf_mode :: "Race \<Rightarrow> Result \<Rightarrow> unit outcome" where
  "process_ardf_mode race result =
     (case calculate_scores_ardf race result of
        (score, r) \<Rightarrow> Return () (r\<lparr>scores_ardf := score\<rparr>))"

definition process_trailo_mode :: "Race \<Rightarrow> Result \<Rightarrow> unit outcome" where
  "process_trailo_mode race result =
     (case calculate_scores_trailo race result of
        Inl e \<Rightarrow> Raise e result
      | Inr scores \<Rightarrow>
          (let penalty = calculate_rogaine_penalty race result scores 1
           in case calculate_time_trailo race result of
                Inl e \<Rightarrow> Raise e result
              | Inr t \<Rightarrow>
                  Return () (result\<lparr>trailo_score_penalty := penalty,
                                      trailo_score := scores - penalty,
                                      trailo_time := t\<rparr>)))"

definition process_scores_mode :: "Race \<Rightarrow> Result \<Rightarrow> unit outcome" where
  "process_scores_mode race result =
     (case calculate_rogaine_score race result
             (result_processing_scores_allow_duplicates race) of
        Inl e \<Rightarrow> Raise e result
      | Inr score \<Rightarrow>
          (let penalty = calculate_rogaine_penalty race result score
                           (result_processing_scores_minute_penalty race)
           in Return () (result\<lparr>rogaine_score := score - penalty,
                                  rogaine_penalty := penalty\<rparr>)))"

text \<open>\<open>_get_course\<close>: the course of the result, none without a person.\<close>

definition get_course :: "Race \<Rightarrow> Result \<Rightarrow> Course option" where
  "get_course race result =
     (if person result \<noteq> None then find_course race result else None)"

text \<open>
  \<open>_process_standard_mode\<close> runs when the checker's person has a group; \<open>g\<close> is that
  group.
\<close>

definition process_standard_mode :: "Race \<Rightarrow> Group \<Rightarrow> Result \<Rightarrow> bool outcome" where
  "process_standard_mode race g result =
     (if marked_route_dont_dsq race
      then Return True (snd (result_check race result (get_course race result)))
      else (case get_course race result of
              None \<Rightarrow> Return (\<not> is_any_course g) result
            | Some course \<Rightarrow>
                (if is_any_course g then Return True result
                 else (case result_check race result (Some course) of
                         (flag, r) \<Rightarrow> Return flag r))))"

subsection \<open>\<open>check_result\<close>\<close>

text \<open>
  The checker is built from \<open>result.person\<close>, so \<open>self.person\<close> is the person of the
  result.
\<close>

definition check_result :: "Race \<Rightarrow> Result \<Rightarrow> bool outcome" where
  "check_result race result =
     (case person_group result of
        None \<Rightarrow> Return True result
      | Some g \<Rightarrow>
          (let processing_mode = result_processing_mode race
           in if processing_mode = ''ardf''
              then (case process_ardf_mode race result of
                      Raise e r \<Rightarrow> Raise e r | Return u r \<Rightarrow> Return True r)
              else if processing_mode = ''trailo''
              then (case process_trailo_mode race result of
                      Raise e r \<Rightarrow> Raise e r | Return u r \<Rightarrow> Return True r)
              else if processing_mode = ''scores''
              then (case process_scores_mode race result of
                      Raise e r \<Rightarrow> Raise e r | Return u r \<Rightarrow> Return True r)
              else process_standard_mode race g result))"

subsection \<open>\<open>_check_overtime\<close> and \<open>_validate_result_status\<close>\<close>

definition check_overtime :: "Race \<Rightarrow> Result \<Rightarrow> Result" where
  "check_overtime race result =
     (case person_group result of
        None \<Rightarrow> result
      | Some g \<Rightarrow>
          (let result_time = get_result_otime race result;
               max_t = max_time g
           in if max_t = 0 then result
              else (let rp_mode = result_processing_mode race
                    in if rp_mode = ''time'' \<or> rp_mode = ''ardf''
                       then (if result_time > max_t then result\<lparr>status := OVERTIME\<rparr>
                             else result)
                       else if rp_mode = ''scores''
                       then (let max_overrun_time =
                                   result_processing_scores_max_overrun_time race
                             in if max_overrun_time > 0
                                   \<and> result_time > max_t + max_overrun_time
                                then result\<lparr>status := OVERTIME\<rparr>
                                else result)
                       else result)))"

definition validate_result_status :: "Race \<Rightarrow> Result \<Rightarrow> bool \<Rightarrow> unit outcome" where
  "validate_result_status race result check_flag =
     (if \<not> check_flag then Return () (result\<lparr>status := MISSING_PUNCH\<rparr>)
      else (case check_penalty_laps race result of
              Inl e \<Rightarrow> Raise e result
            | Inr laps_ok \<Rightarrow>
                (if \<not> laps_ok then Return () (result\<lparr>status := MISS_PENALTY_LAP\<rparr>)
                 else Return () (check_overtime race result))))"

subsection \<open>\<open>checking\<close>\<close>

definition checked_statuses :: "ResultStatus list" where
  "checked_statuses = [OK, MISSING_PUNCH, OVERTIME, MISS_PENALTY_LAP, MULTI_DAY_ISSUE]"

text \<open>
  The classmethod \<open>ResultChecker.checking\<close>; the bare name is a keyword of Isabelle.
\<close>

definition ResultChecker_checking :: "Race \<Rightarrow> Result \<Rightarrow> unit outcome" where
  "ResultChecker_checking race result =
     (if person result = None then Raise ResultCheckerException result
      else if status result \<in> set checked_statuses then Return () result
      else (case check_result race (result\<lparr>status := OK\<rparr>) of
              Raise e r \<Rightarrow> Raise e r
            | Return check_flag r1 \<Rightarrow>
                (case calculate_penalty race r1 of
                   Raise e r \<Rightarrow> Raise e r
                 | Return u r2 \<Rightarrow>
                     (case calculate_credit_time race r2 of
                        Raise e r \<Rightarrow> Raise e r
                      | Return u r3 \<Rightarrow>
                          (case validate_result_status race r3 check_flag of
                             Raise e r \<Rightarrow> Raise e r
                           | Return u r4 \<Rightarrow>
                               Return () (r4\<lparr>status_comment :=
                                  get_status_default_comment race (status r4)\<rparr>))))))"

section \<open>Splits of a group: leg places and the final order\<close>

text \<open>
  A \<open>PersonSplits\<close> wraps one result; \<open>last_correct_index\<close> is set when the splits are
  generated.
\<close>

record PersonSplits =
  ps_result :: Result
  last_correct_index :: int
  relay_leg :: int

definition get_leg_by_course_index :: "PersonSplits \<Rightarrow> int \<Rightarrow> Split option" where
  "get_leg_by_course_index item index =
     (if index > last_correct_index item then None
      else List.find (\<lambda>s. course_index s = index) (splits (ps_result item)))"

definition get_leg_time :: "PersonSplits \<Rightarrow> int \<Rightarrow> OTime option" where
  "get_leg_time item index =
     (case get_leg_by_course_index item index of None \<Rightarrow> None | Some leg \<Rightarrow> Some (leg_time leg))"

definition get_leg_relative_time :: "PersonSplits \<Rightarrow> int \<Rightarrow> OTime option" where
  "get_leg_relative_time item index =
     (case get_leg_by_course_index item index of
        None \<Rightarrow> None | Some leg \<Rightarrow> Some (relative_time leg))"

subsection \<open>\<open>_sort_by_leg\<close>\<close>

text \<open>
  The key is the pair \<open>(time is None, time)\<close>, with infinity for a missing time; pairs
  compare lexicographically and \<open>False < True\<close>.  Two keys of missing times are equal,
  so the model gives them the same second component.  \<open>list.sort\<close> is stable, as
  \<open>sort_key\<close> is.
\<close>

definition time_key :: "OTime option \<Rightarrow> bool \<times> OTime" where
  "time_key t = (case t of None \<Rightarrow> (True, 0) | Some v \<Rightarrow> (False, v))"

definition leg_sort_key :: "int \<Rightarrow> bool \<Rightarrow> PersonSplits \<Rightarrow> bool \<times> OTime" where
  "leg_sort_key index relative item =
     time_key (if relative then get_leg_relative_time item index else get_leg_time item index)"

definition sort_by_leg :: "int \<Rightarrow> bool \<Rightarrow> PersonSplits list \<Rightarrow> PersonSplits list" where
  "sort_by_leg index relative person_splits =
     sort_key (leg_sort_key index relative) person_splits"

subsection \<open>\<open>_set_places_for_leg\<close>\<close>

text \<open>
  The leg of a person is an object among the splits of the result; writing an attribute
  of the leg changes that split, the first one with the course index.
\<close>

fun update_first :: "('a \<Rightarrow> bool) \<Rightarrow> ('a \<Rightarrow> 'a) \<Rightarrow> 'a list \<Rightarrow> 'a list" where
  "update_first P f [] = []"
| "update_first P f (x # xs) = (if P x then f x # xs else x # update_first P f xs)"

definition update_leg :: "int \<Rightarrow> (Split \<Rightarrow> Split) \<Rightarrow> PersonSplits \<Rightarrow> PersonSplits" where
  "update_leg index f item =
     item\<lparr>ps_result := (ps_result item)
       \<lparr>splits := update_first (\<lambda>s. course_index s = index) f (splits (ps_result item))\<rparr>\<rparr>"

definition time_attr :: "bool \<Rightarrow> Split \<Rightarrow> OTime" where
  "time_attr relative leg = (if relative then relative_time leg else leg_time leg)"

definition place_attr :: "bool \<Rightarrow> Split \<Rightarrow> int" where
  "place_attr relative leg = (if relative then relative_place leg else leg_place leg)"

definition set_place :: "bool \<Rightarrow> int \<Rightarrow> OTime option \<Rightarrow> Split \<Rightarrow> Split" where
  "set_place relative place ldr_time leg =
     (if relative then leg\<lparr>relative_place := place\<rparr>
      else leg\<lparr>leg_place := place, leader_time := ldr_time\<rparr>)"

text \<open>
  The loop over \<open>enumerate(self.person_splits)\<close>, from position \<open>i\<close> on, with the counter
  of shared places and the time of the leg seen last.
\<close>

fun places_loop ::
  "int \<Rightarrow> bool \<Rightarrow> OTime option \<Rightarrow> int \<Rightarrow> int \<Rightarrow> OTime option
     \<Rightarrow> PersonSplits list \<Rightarrow> PersonSplits list" where
  "places_loop index relative ldr_time i double_places_counter prev_time [] = []"
| "places_loop index relative ldr_time i double_places_counter prev_time (item # rest) =
     (case get_leg_by_course_index item index of
        None \<Rightarrow>
          item # places_loop index relative ldr_time (i + 1) double_places_counter
                   prev_time rest
      | Some leg \<Rightarrow>
          (let current_time = time_attr relative leg;
               counter = (if i > 0 \<and> prev_time = Some current_time
                          then double_places_counter + 1 else 0)
           in update_leg index (set_place relative (i + 1 - counter) ldr_time) item
              # places_loop index relative ldr_time (i + 1) counter (Some current_time) rest))"

definition set_places_for_leg ::
  "int \<Rightarrow> bool \<Rightarrow> PersonSplits list \<Rightarrow> PersonSplits list" where
  "set_places_for_leg index relative person_splits =
     (if person_splits = [] then []
      else (let ldr_time =
                  (case get_leg_by_course_index (hd person_splits) index of
                     None \<Rightarrow> None
                   | Some leg \<Rightarrow> Some (time_attr relative leg))
            in places_loop index relative ldr_time 0 0 ldr_time person_splits))"

subsection \<open>\<open>_sort_by_result\<close>\<close>

text \<open>
  \<open>status_priority\<close> is a list of five integers, the \<open>.value\<close> of five members of
  \<open>ResultStatus\<close>; the key then asks whether \<open>item.result.status\<close>, a member of the
  enumeration and not its value, is in that list, and where.  A Python object that is a
  member or an integer is an element of the sum \<open>ResultStatus + int\<close>: \<open>Inl\<close> a member,
  \<open>Inr\<close> an integer.  The test \<open>in\<close> and the method \<open>index\<close> compare with \<open>==\<close>, and a
  member of an enumeration is equal to no integer, as the two injections are.  The
  integers that the declaration of \<open>ResultStatus\<close> gives its members are the parameter
  \<open>status_value\<close>.
\<close>

definition status_priority :: "(ResultStatus \<Rightarrow> int) \<Rightarrow> (ResultStatus + int) list" where
  "status_priority status_value =
     [Inr (status_value OVERTIME),
      Inr (status_value MISSING_PUNCH),
      Inr (status_value DISQUALIFIED),
      Inr (status_value DID_NOT_FINISH),
      Inr (status_value DID_NOT_START)]"

text \<open>\<open>xs.index(x)\<close> for an \<open>x\<close> of the list.\<close>

fun index_of :: "'a \<Rightarrow> 'a list \<Rightarrow> int" where
  "index_of x [] = 0"
| "index_of x (y # ys) = (if x = y then 0 else 1 + index_of x ys)"

text \<open>
  The local \<open>priority\<close> of \<open>sort_key\<close>: 0, and the index plus one when the status, a
  member, is found in the list of integers.
\<close>

definition priority_of :: "(ResultStatus \<Rightarrow> int) \<Rightarrow> ResultStatus \<Rightarrow> int" where
  "priority_of status_value st =
     (if Inl st \<in> set (status_priority status_value)
      then index_of (Inl st) (status_priority status_value) + 1
      else 0)"

text \<open>
  The key is \<open>(item.result is None, priority, item.result)\<close>.  Its first component is
  \<open>False\<close> for every item, since the status of the result has been read.  The third
  component is the result itself, compared as \<open>Result\<close> objects compare; that ordering is
  defined outside \<open>split_calculation.py\<close>, and the model takes it as a key \<open>result_key\<close>
  into a linear order.
\<close>

definition result_sort_key ::
  "(ResultStatus \<Rightarrow> int) \<Rightarrow> (Result \<Rightarrow> 'k::linorder) \<Rightarrow> PersonSplits
     \<Rightarrow> bool \<times> int \<times> 'k" where
  "result_sort_key status_value result_key item =
     (False, priority_of status_value (status (ps_result item)), result_key (ps_result item))"

definition sort_by_result ::
  "(ResultStatus \<Rightarrow> int) \<Rightarrow> (Result \<Rightarrow> 'k::linorder) \<Rightarrow> PersonSplits list
     \<Rightarrow> PersonSplits list" where
  "sort_by_result status_value result_key person_splits =
     sort_key (result_sort_key status_value result_key) person_splits"

section \<open>Sample data and notions of the specification\<close>

text \<open>
  Modelled from the spec: \<open>CourseControl.get_number_code\<close> is defined outside the source
  files at hand.  The specification's course model writes a control as a plain code, as
  a choice set \<open>"31(31,131)"\<close> or as the wildcard \<open>"*"\<close>, and its classic matching
  consumes a punch for the code \<open>"0"\<close> (wildcard-zero): the number code is the
  leading run of digits of the code, and \<open>"0"\<close> when there is none.
\<close>

definition number_code :: "CourseControl \<Rightarrow> string" where
  "number_code c =
     (let tmp = takeWhile is_digit_char (control_code c)
      in if tmp = [] then ''0'' else tmp)"

text \<open>A control with the given code, and a punch of the given code as a card holds it.\<close>

definition plain_control :: "string \<Rightarrow> CourseControl" where
  "plain_control code = \<lparr>control_code = code, control_length = 0, control_score = 0\<rparr>"

definition punch :: "string \<Rightarrow> Split" where
  "punch code =
     \<lparr>split_code = code, split_time = 0, is_correct = False, has_penalty = True,
      course_index = - 1, leg_time = 0, relative_time = 0, leg_place = 0,
      relative_place = 0, leader_time = None\<rparr>"

text \<open>
  A choice-set control is one that adds a wrong choice to the list of incorrect codes:
  its code is a number, an opening parenthesis and members of which one is another
  number, as \<open>"31(31,131)"\<close>.
\<close>

definition is_choice_control :: "CourseControl \<Rightarrow> bool" where
  "is_choice_control c = (incorrect_of_code (control_code c) [] \<noteq> [])"



text \<open>The result as a call leaves it, returned or raised.\<close>

fun outcome_result :: "'a outcome \<Rightarrow> Result" where
  "outcome_result (Return v r) = r"
| "outcome_result (Raise e r) = r"

text \<open>
  Modelled from the spec: \<open>Result.get_result_otime\<close> is defined outside the source files
  at hand.  The specification says of the credit time that it is "used to exclude
  rest/assistance time from total elapsed time": the result time is the time from start
  to finish without the credit time.
\<close>

definition elapsed_result_time :: "Result \<Rightarrow> OTime" where
  "elapsed_result_time r = finish_time r - start_time r - credit_time r"

text \<open>
  A race in which every setting has the default that the checker passes to
  \<open>get_setting\<close> (a setting read without default is unset: false, or 0 for a code),
  with no controls and no course, and with a \<open>Result.check\<close> that passes and changes
  nothing.
\<close>

definition default_race :: Race where
  "default_race =
     \<lparr>result_processing_mode = ''time'',
      marked_route_dont_dsq = False,
      marked_route_mode = ''off'',
      marked_route_if_station_check = False,
      marked_route_penalty_lap_station_code = 0,
      marked_route_max_penalty_by_cp = False,
      marked_route_penalty_time = 60000,
      credit_time_enabled = False,
      credit_time_cp = 250,
      result_processing_scores_allow_duplicates = False,
      result_processing_scores_minute_penalty = 1,
      result_processing_scores_max_overrun_time = 0,
      result_processing_score_mode = ''fixed'',
      result_processing_fixed_score_value = 1,
      race_controls = [],
      find_course = (\<lambda>r. None),
      result_check = (\<lambda>r c. (True, r)),
      get_result_otime = elapsed_result_time,
      get_number_code = number_code,
      get_status_default_comment = (\<lambda>st. [])\<rparr>"

text \<open>A group, a person and a result with no punches, start at 0 and finish at \<open>t\<close>.\<close>

definition sample_group :: "OTime \<Rightarrow> Group" where
  "sample_group limit = \<lparr>group_name = ''M21'', max_time = limit, is_any_course = False\<rparr>"

definition sample_person :: "Group option \<Rightarrow> Person" where
  "sample_person g = \<lparr>group = g, bib = 1\<rparr>"

definition sample_result :: "Person option \<Rightarrow> ResultStatus \<Rightarrow> OTime \<Rightarrow> Result" where
  "sample_result p st t =
     \<lparr>person = p, splits = [], status = st, status_comment = [],
      start_time = 0, finish_time = t, penalty_time = 0, penalty_laps = 0,
      credit_time = 0, rogaine_score = 0, rogaine_penalty = 0, scores_ardf = 0,
      trailo_score = 0, trailo_score_penalty = 0, trailo_time = 0\<rparr>"

text \<open>Whether a call returned.\<close>

fun returned :: "'a outcome \<Rightarrow> bool" where
  "returned (Return v r) = True"
| "returned (Raise e r) = False"

text \<open>
  An ARDF race with credit time: the course is the control 31, the credit control is
  250, and the result time is the elapsed time without the credit time.  The result is
  of a person whose group allows 60 minutes; the card holds 31 at 5:00 and the credit
  control 250 at 8:00, the finish is at 61:00, and the status is \<open>DID_NOT_FINISH\<close>.
\<close>

definition ardf_credit_race :: Race where
  "ardf_credit_race =
     default_race\<lparr>result_processing_mode := ''ardf'', credit_time_enabled := True,
       find_course := (\<lambda>r. Some \<lparr>controls = [plain_control ''31''], course_length = 0\<rparr>)\<rparr>"

definition ardf_credit_result :: Result where
  "ardf_credit_result =
     (sample_result (Some (sample_person (Some (sample_group 3600000)))) DID_NOT_FINISH 3660000)
       \<lparr>splits := [(punch ''31'')\<lparr>split_time := 300000\<rparr>,
                   (punch ''250'')\<lparr>split_time := 480000\<rparr>]\<rparr>"

text \<open>
  A race that counts penalty laps at a station, and a result of a person without group
  that carries one penalty lap and no punch.
\<close>

definition laps_race :: Race where
  "laps_race =
     default_race\<lparr>marked_route_mode := ''laps'', marked_route_if_station_check := True\<rparr>"

definition laps_result :: Result where
  "laps_result = (sample_result (Some (sample_person None)) DID_NOT_START 100)\<lparr>penalty_laps := 1\<rparr>"

text \<open>A \<open>PersonSplits\<close> of a sample result with the given status and finish time.\<close>

definition sample_person_splits :: "ResultStatus \<Rightarrow> OTime \<Rightarrow> PersonSplits" where
  "sample_person_splits st t =
     \<lparr>ps_result = sample_result (Some (sample_person None)) st t,
      last_correct_index = 0, relay_leg = 0\<rparr>"

text \<open>
  The time and the place of the leg of a person at a course index, as the ranking reads
  and writes them; none when the person has no such leg.
\<close>

definition leg_time_of :: "int \<Rightarrow> bool \<Rightarrow> PersonSplits \<Rightarrow> OTime option" where
  "leg_time_of index relative item =
     (if relative then get_leg_relative_time item index else get_leg_time item index)"

definition leg_place_of :: "int \<Rightarrow> bool \<Rightarrow> PersonSplits \<Rightarrow> int option" where
  "leg_place_of index relative item =
     (case get_leg_by_course_index item index of
        None \<Rightarrow> None
      | Some leg \<Rightarrow> Some (place_attr relative leg))"

text \<open>How many of the times are strictly better than \<open>t\<close>.\<close>

definition strictly_better :: "OTime \<Rightarrow> OTime option list \<Rightarrow> nat" where
  "strictly_better t ts =
     length (filter (\<lambda>u. case u of None \<Rightarrow> False | Some v \<Rightarrow> v < t) ts)"

text \<open>
  The places that the loop of \<open>_set_places_for_leg\<close> assigns, as a function of the leg
  times alone: the state of the loop depends on nothing else.
\<close>

fun places_of_times :: "int \<Rightarrow> int \<Rightarrow> OTime option \<Rightarrow> OTime option list \<Rightarrow> int option list" where
  "places_of_times i double_places_counter prev_time [] = []"
| "places_of_times i double_places_counter prev_time (None # ts) =
     None # places_of_times (i + 1) double_places_counter prev_time ts"
| "places_of_times i double_places_counter prev_time (Some current_time # ts) =
     (let counter = (if i > 0 \<and> prev_time = Some current_time
                     then double_places_counter + 1 else 0)
      in Some (i + 1 - counter) # places_of_times (i + 1) counter (Some current_time) ts)"

text \<open>
  A person whose first punch is the leg of course index 0 with the given leg time, and
  a person without any leg.
\<close>

definition person_with_leg :: "OTime \<Rightarrow> PersonSplits" where
  "person_with_leg t =
     \<lparr>ps_result = (sample_result (Some (sample_person None)) OK 0)
        \<lparr>splits := [(punch ''31'')\<lparr>course_index := 0, leg_time := t, is_correct := True\<rparr>]\<rparr>,
      last_correct_index = 0, relay_leg = 0\<rparr>"

definition person_without_leg :: PersonSplits where
  "person_without_leg =
     \<lparr>ps_result = sample_result (Some (sample_person None)) OK 0,
      last_correct_index = - 1, relay_leg = 0\<rparr>"

text \<open>A group of four on one leg: the times 20, none, 10 and 10.\<close>

definition tied_group :: "PersonSplits list" where
  "tied_group = [person_with_leg 20, person_without_leg, person_with_leg 10, person_with_leg 10]"

text \<open>
  The tests of the ARDF walk on a control code: it is optional when it holds a \<open>?\<close>,
  bracketed when it holds both parentheses, and its options are the parts that the walk
  splits it into.
\<close>

definition is_optional :: "string \<Rightarrow> bool" where
  "is_optional cp = (CHR ''?'' \<in> set cp)"

definition bracketed :: "string \<Rightarrow> bool" where
  "bracketed cp = (CHR ''('' \<in> set cp \<and> CHR '')'' \<in> set cp)"

definition option_set :: "string \<Rightarrow> string set" where
  "option_set cp = set (py_split (CHR '','') (strip_chars ''?()'' cp))"

text \<open>The result time exceeds the maximal time of the group, which is not zero.\<close>

definition ardf_overrun :: "Race \<Rightarrow> Result \<Rightarrow> bool" where
  "ardf_overrun race r =
     (case person_group r of
        None \<Rightarrow> False
      | Some g \<Rightarrow> 0 < max_time g \<and> max_time g < get_result_otime race r)"

text \<open>
  An ARDF race in which every result has the course of the given control codes, and the
  result of a person whose group allows \<open>limit\<close>, with punches of the given codes, the
  start at 0 and the finish at \<open>t\<close>, in milliseconds.
\<close>

definition ardf_race_of :: "string list \<Rightarrow> Race" where
  "ardf_race_of codes =
     default_race\<lparr>result_processing_mode := ''ardf'',
       find_course := (\<lambda>r. Some \<lparr>controls = map plain_control codes, course_length = 0\<rparr>)\<rparr>"

definition ardf_result :: "OTime \<Rightarrow> string list \<Rightarrow> OTime \<Rightarrow> Result" where
  "ardf_result limit codes t =
     (sample_result (Some (sample_person (Some (sample_group limit)))) DID_NOT_FINISH t)
       \<lparr>splits := map punch codes\<rparr>"

text \<open>
  The walk for one punch, told by what becomes of the cursor.  An optional control takes
  a punch whose code has not scored yet and, when the control is bracketed, is one of its
  options.  From the cursor the walk passes the optional controls that do not take the
  punch, \<open>passed_controls\<close> of them, and the control it stops at decides.  Past the last
  control nothing is scored and the cursor stays there.  An optional control, which then
  takes the punch, scores a point and puts the cursor one past where the walk of this
  punch began.  A control that is not optional and is not the punched code scores
  nothing and puts the cursor back where the walk began.  A control that is the punched
  code puts the cursor past itself and scores a point if the code has not scored yet.
\<close>

definition takes_punch :: "string \<Rightarrow> string \<Rightarrow> string list \<Rightarrow> bool" where
  "takes_punch cp code scored \<longleftrightarrow>
     is_optional cp \<and> code \<notin> set scored \<and> (bracketed cp \<longrightarrow> code \<in> option_set cp)"

definition passed_controls :: "string list \<Rightarrow> string \<Rightarrow> nat \<Rightarrow> string list \<Rightarrow> nat" where
  "passed_controls co code cursor scored =
     length (takeWhile (\<lambda>cp. is_optional cp \<and> \<not> takes_punch cp code scored) (drop cursor co))"

definition walk_punch ::
  "string list \<Rightarrow> string \<Rightarrow> nat \<times> string list \<times> int \<Rightarrow> nat \<times> string list \<times> int" where
  "walk_punch co code = (\<lambda>(cursor, scored, score).
     let stop = cursor + passed_controls co code cursor scored
     in if length co \<le> stop then (stop, scored, score)
        else if is_optional (co ! stop) then (cursor + 1, scored @ [code], score + 1)
        else if co ! stop \<noteq> code then (cursor, scored, score)
        else if code \<in> set scored then (stop + 1, scored, score)
        else (stop + 1, scored @ [code], score + 1))"

text \<open>
  The walk of a course for a list of punched codes: one punch after the other, from the
  cursor at the first control, with no code scored and the score 0.
\<close>

definition walk_course :: "string list \<Rightarrow> string list \<Rightarrow> nat \<times> string list \<times> int" where
  "walk_course co codes = foldl (\<lambda>state code. walk_punch co code state) (0, [], 0) codes"

section \<open>Properties of the penalty calculation\<close>



















lemma free_order_count_filter:
  "free_order_count spl n = n + int (length (filter (\<lambda>s. \<not> has_penalty s) spl))"
  by (induction spl arbitrary: n) simp_all

subsection \<open>Codes of the form number, parenthesis, members\<close>















text \<open>
  C5.  \<open>penalty_calculation_free_order\<close> returns the number of controls minus the number
  of punches without the penalty flag, and 0 when that is negative.  For three controls
  and four punches of 31 of which the first is free of penalty and the repeats are
  flagged, the penalty is 2.
\<close>

theorem penalty_calculation_free_order_shortfall:
  "penalty_calculation_free_order spl cs =
     max 0 (int (length cs) - int (length (filter (\<lambda>s. \<not> has_penalty s) spl)))
   \<and> penalty_calculation_free_order
       [(punch ''31'')\<lparr>has_penalty := False\<rparr>, (punch ''31'')\<lparr>has_penalty := True\<rparr>,
        (punch ''31'')\<lparr>has_penalty := True\<rparr>, (punch ''31'')\<lparr>has_penalty := True\<rparr>]
       (map plain_control [''*'', ''*'', ''*'']) = 2"
  by (simp add: penalty_calculation_free_order_def free_order_count_filter max.commute)

section \<open>Properties of the status engine\<close>

text \<open>
  C7 (as amended).  The overtime check leaves the result alone when the person or the
  group is missing or the maximal time of the group is zero.  With a non-zero maximal
  time it sets the status to \<open>OVERTIME\<close> in the modes \<open>time\<close> and \<open>ardf\<close> exactly when the
  result time exceeds the maximal time, and in the mode \<open>scores\<close> exactly when the
  configured overrun time is positive and the result time exceeds the maximal time plus
  the overrun time; in any other mode it changes nothing.
\<close>

theorem check_overtime_cases:
  "(person_group r = None \<longrightarrow> check_overtime race r = r)
   \<and> (person_group r = Some g \<longrightarrow>
        (max_time g = 0 \<longrightarrow> check_overtime race r = r)
        \<and> (max_time g \<noteq> 0 \<longrightarrow>
             check_overtime race r =
              (if ((result_processing_mode race = ''time'' \<or> result_processing_mode race = ''ardf'')
                     \<and> get_result_otime race r > max_time g)
                  \<or> (result_processing_mode race = ''scores''
                      \<and> result_processing_scores_max_overrun_time race > 0
                      \<and> get_result_otime race r
                          > max_time g + result_processing_scores_max_overrun_time race)
               then r\<lparr>status := OVERTIME\<rparr> else r)))"
  by (auto simp: check_overtime_def Let_def)

theorem check_overtime_cases_witness:
  "person_group (sample_result (Some (sample_person (Some (sample_group 3600000)))) OK 3700000)
     = Some (sample_group 3600000)
   \<and> max_time (sample_group 3600000) \<noteq> 0
   \<and> status (check_overtime (default_race\<lparr>result_processing_mode := ''scores'',
                 result_processing_scores_max_overrun_time := 60000\<rparr>)
        (sample_result (Some (sample_person (Some (sample_group 3600000)))) OK 3700000))
      = OVERTIME"
proof -
  have g: "person_group (sample_result (Some (sample_person (Some (sample_group 3600000)))) OK 3700000)
             = Some (sample_group 3600000)"
    by (simp add: person_group_def sample_result_def sample_person_def)
  have m: "max_time (sample_group 3600000) \<noteq> 0"
    by (simp add: sample_group_def)
  have t: "get_result_otime (default_race\<lparr>result_processing_mode := ''scores'',
                 result_processing_scores_max_overrun_time := 60000\<rparr>)
             (sample_result (Some (sample_person (Some (sample_group 3600000)))) OK 3700000)
           = 3700000"
    by (simp add: default_race_def elapsed_result_time_def sample_result_def)
  show ?thesis
    using g m t check_overtime_cases
      [of "sample_result (Some (sample_person (Some (sample_group 3600000)))) OK 3700000"
          "default_race\<lparr>result_processing_mode := ''scores'',
                 result_processing_scores_max_overrun_time := 60000\<rparr>"
          "sample_group 3600000"]
    by (simp add: default_race_def sample_group_def)
qed

theorem check_overtime_scores_counterexample:
  "result_processing_mode (default_race\<lparr>result_processing_mode := ''scores''\<rparr>) = ''scores''
   \<and> person_group (sample_result (Some (sample_person (Some (sample_group 3600000)))) OK 3700000)
       = Some (sample_group 3600000)
   \<and> get_result_otime (default_race\<lparr>result_processing_mode := ''scores''\<rparr>)
         (sample_result (Some (sample_person (Some (sample_group 3600000)))) OK 3700000)
       > max_time (sample_group 3600000)
         + result_processing_scores_max_overrun_time
             (default_race\<lparr>result_processing_mode := ''scores''\<rparr>)
   \<and> status (check_overtime (default_race\<lparr>result_processing_mode := ''scores''\<rparr>)
        (sample_result (Some (sample_person (Some (sample_group 3600000)))) OK 3700000))
      = OK"
  by (simp add: check_overtime_def person_group_def sample_result_def sample_person_def
        sample_group_def default_race_def elapsed_result_time_def Let_def)

subsection \<open>Which exceptions the parts of \<open>checking\<close> raise\<close>

lemma detach_regular_error: "detach_regular spl k = Inl e \<Longrightarrow> e = ValueError"
  by (induction spl arbitrary: e) (auto split: if_splits option.splits sum.splits)

lemma detach_penalty_error: "detach_penalty spl k = Inl e \<Longrightarrow> e = ValueError"
  by (induction spl arbitrary: e) (auto split: if_splits option.splits sum.splits)

lemma detach_penalty_laps2_error: "detach_penalty_laps2 spl k = Inl e \<Longrightarrow> e = ValueError"
  by (auto simp: detach_penalty_laps2_def split: if_splits sum.splits
        dest: detach_regular_error detach_penalty_error)

lemma check_penalty_laps_error: "check_penalty_laps race r = Inl e \<Longrightarrow> e = ValueError"
  by (auto simp: check_penalty_laps_def split: if_splits sum.splits prod.splits
        dest: detach_penalty_laps2_error)

lemma credit_loop_error: "credit_loop prev spl cp acc = Inl e \<Longrightarrow> e = ValueError"
  by (induction prev spl cp acc rule: credit_loop.induct)
     (auto split: if_splits option.splits)

lemma trailo_penalty_inner_error:
  "trailo_penalty_inner c n spl = Inl e \<Longrightarrow> e = ValueError"
  by (induction spl) (auto split: if_splits option.splits)

lemma trailo_penalty_loop_error:
  "trailo_penalty_loop t spl cs res = Inl e \<Longrightarrow> e = ValueError"
  by (induction cs arbitrary: res)
     (auto split: if_splits option.splits sum.splits dest: trailo_penalty_inner_error)

lemma get_control_score_error: "get_control_score race code = Inl e \<Longrightarrow> e = ValueError"
  by (auto simp: get_control_score_def split: if_splits option.splits)

lemma rogaine_loop_error:
  "rogaine_loop race dup spl ua score = Inl e \<Longrightarrow> e = ValueError"
  by (induction spl arbitrary: ua score)
     (auto simp: Let_def split: if_splits sum.splits dest: get_control_score_error)

lemma trailo_score_inner_error: "trailo_score_inner c spl = Inl e \<Longrightarrow> e = ValueError"
  by (induction spl) (auto split: if_splits option.splits)

lemma trailo_score_loop_error: "trailo_score_loop spl cs ret = Inl e \<Longrightarrow> e = ValueError"
  by (induction cs arbitrary: ret)
     (auto split: if_splits option.splits sum.splits dest: trailo_score_inner_error)

lemma trailo_time_inner_error: "trailo_time_inner c spl = Inl e \<Longrightarrow> e = ValueError"
  by (induction spl) (auto split: if_splits option.splits)

lemma trailo_time_loop_error:
  "trailo_time_loop spl cs ret = Inl e \<Longrightarrow> e = ValueError \<or> e = IndexError"
  by (induction cs arbitrary: ret)
     (auto split: if_splits option.splits sum.splits dest: trailo_time_inner_error)

lemma check_result_error:
  "check_result race r = Raise e r' \<Longrightarrow> e \<noteq> ResultCheckerException"
  by (auto simp: check_result_def process_ardf_mode_def process_trailo_mode_def
        process_scores_mode_def process_standard_mode_def calculate_scores_trailo_def
        calculate_time_trailo_def calculate_rogaine_score_def Let_def
        split: option.splits if_splits outcome.splits sum.splits prod.splits
        dest: trailo_score_loop_error trailo_time_loop_error rogaine_loop_error)

lemma calculate_penalty_error:
  "calculate_penalty race r = Raise e r' \<Longrightarrow> e \<noteq> ResultCheckerException"
  by (auto simp: calculate_penalty_def calculate_trailo_penalty_def
        calculate_standard_penalty_def penalty_calculation_trailo_def Let_def
        split: option.splits if_splits sum.splits prod.splits
        dest: trailo_penalty_loop_error detach_penalty_laps2_error)

lemma calculate_credit_time_error:
  "calculate_credit_time race r = Raise e r' \<Longrightarrow> e \<noteq> ResultCheckerException"
  by (auto simp: calculate_credit_time_def credit_calculation_def
        split: if_splits sum.splits dest: credit_loop_error)

lemma validate_result_status_error:
  "validate_result_status race r flag = Raise e r' \<Longrightarrow> e \<noteq> ResultCheckerException"
  by (auto simp: validate_result_status_def split: if_splits sum.splits
        dest: check_penalty_laps_error)

text \<open>
  C1.  \<open>checking\<close> raises \<open>ResultCheckerException\<close> exactly when the result has no
  person, and then the result is as it was; when the result has a person and its status
  is one of \<open>OK\<close>, \<open>MISSING_PUNCH\<close>, \<open>OVERTIME\<close>, \<open>MISS_PENALTY_LAP\<close> and \<open>MULTI_DAY_ISSUE\<close>,
  \<open>checking\<close> returns and the result, with all its fields, is as it was.
\<close>

theorem checking_person_and_guard:
  "((\<exists>r'. ResultChecker_checking race r = Raise ResultCheckerException r')
      \<longleftrightarrow> person r = None)
   \<and> (person r = None \<longrightarrow> ResultChecker_checking race r = Raise ResultCheckerException r)
   \<and> (person r \<noteq> None
        \<and> status r \<in> {OK, MISSING_PUNCH, OVERTIME, MISS_PENALTY_LAP, MULTI_DAY_ISSUE}
        \<longrightarrow> ResultChecker_checking race r = Return () r)"
proof -
  have a: "ResultChecker_checking race r = Raise ResultCheckerException r" if "person r = None"
    using that by (simp add: ResultChecker_checking_def)
  have b: "person r = None" if "ResultChecker_checking race r = Raise ResultCheckerException r'"
    for r'
  proof (rule ccontr)
    assume "person r \<noteq> None"
    then obtain pp where p: "person r = Some pp" by blast
    show False
    proof (cases "status r \<in> set checked_statuses")
      case True
      with p that show False by (simp add: ResultChecker_checking_def)
    next
      case False
      with p that show False
        by (auto simp: ResultChecker_checking_def split: outcome.splits
              dest: check_result_error calculate_penalty_error calculate_credit_time_error
                validate_result_status_error)
    qed
  qed
  have c: "ResultChecker_checking race r = Return () r"
    if "person r \<noteq> None \<and> status r \<in> {OK, MISSING_PUNCH, OVERTIME, MISS_PENALTY_LAP, MULTI_DAY_ISSUE}"
    using that by (auto simp: ResultChecker_checking_def checked_statuses_def)
  show ?thesis using a b c by blast
qed

theorem checking_person_and_guard_witness:
  "person (sample_result None DID_NOT_START 100) = None
   \<and> ResultChecker_checking default_race (sample_result None DID_NOT_START 100)
       = Raise ResultCheckerException (sample_result None DID_NOT_START 100)
   \<and> person (sample_result (Some (sample_person None)) MISSING_PUNCH 100) \<noteq> None
   \<and> ResultChecker_checking default_race (sample_result (Some (sample_person None)) MISSING_PUNCH 100)
       = Return () (sample_result (Some (sample_person None)) MISSING_PUNCH 100)"
proof -
  have p1: "person (sample_result None DID_NOT_START 100) = None"
    by (simp add: sample_result_def)
  have p2: "person (sample_result (Some (sample_person None)) MISSING_PUNCH 100) \<noteq> None"
    by (simp add: sample_result_def)
  have s2: "status (sample_result (Some (sample_person None)) MISSING_PUNCH 100) = MISSING_PUNCH"
    by (simp add: sample_result_def)
  show ?thesis
    using p1 p2 s2
      checking_person_and_guard [of default_race "sample_result None DID_NOT_START 100"]
      checking_person_and_guard
        [of default_race "sample_result (Some (sample_person None)) MISSING_PUNCH 100"]
    by simp
qed

subsection \<open>What the parts of \<open>checking\<close> do to the status and the person\<close>

lemma process_standard_mode_keeps:
  assumes "\<forall>x c. status (snd (result_check race x c)) = status x
             \<and> person (snd (result_check race x c)) = person x"
    and "process_standard_mode race g r = Return f r'"
  shows "status r' = status r \<and> person r' = person r"
proof -
  have k: "status (snd (result_check race r c)) = status r
           \<and> person (snd (result_check race r c)) = person r" for c
    using assms(1) by blast
  show ?thesis
    using assms(2) k [of "get_course race r"] k
    by (auto simp: process_standard_mode_def split: if_splits option.splits prod.splits)
       (metis snd_conv)+
qed

lemma calculate_scores_ardf_keeps:
  "calculate_scores_ardf race r = (n, r') \<Longrightarrow>
     person r' = person r \<and> (status r' = status r \<or> status r' = DISQUALIFIED)"
  by (auto simp: calculate_scores_ardf_def split: option.splits prod.splits if_splits)

lemma check_result_keeps:
  assumes "\<forall>x c. status (snd (result_check race x c)) = status x
             \<and> person (snd (result_check race x c)) = person x"
    and "check_result race r = Return f r'"
  shows "person r' = person r
         \<and> (status r' = status r
             \<or> (status r' = DISQUALIFIED \<and> result_processing_mode race = ''ardf''))"
proof (cases "person_group r")
  case None
  with assms(2) show ?thesis by (simp add: check_result_def)
next
  case (Some g)
  consider (ardf) "result_processing_mode race = ''ardf''"
    | (trailo) "result_processing_mode race \<noteq> ''ardf''" "result_processing_mode race = ''trailo''"
    | (scores) "result_processing_mode race \<noteq> ''ardf''" "result_processing_mode race \<noteq> ''trailo''"
        "result_processing_mode race = ''scores''"
    | (standard) "result_processing_mode race \<noteq> ''ardf''" "result_processing_mode race \<noteq> ''trailo''"
        "result_processing_mode race \<noteq> ''scores''"
    by blast
  then show ?thesis
  proof cases
    case ardf
    with Some assms(2) show ?thesis
      using calculate_scores_ardf_keeps [of race r]
      by (auto simp: check_result_def process_ardf_mode_def Let_def
            split: prod.splits outcome.splits)
  next
    case trailo
    with Some assms(2) show ?thesis
      by (auto simp: check_result_def process_trailo_mode_def Let_def
            split: sum.splits outcome.splits)
  next
    case scores
    with Some assms(2) show ?thesis
      by (auto simp: check_result_def process_scores_mode_def Let_def
            split: sum.splits outcome.splits)
  next
    case standard
    with Some assms(2) have "process_standard_mode race g r = Return f r'"
      by (simp add: check_result_def Let_def)
    then show ?thesis using process_standard_mode_keeps [OF assms(1)] by blast
  qed
qed

lemma standard_penalty_assign_keeps:
  "status (standard_penalty_assign race r course m) = status r
   \<and> person (standard_penalty_assign race r course m) = person r"
  by (simp add: standard_penalty_assign_def Let_def)

lemma calculate_penalty_keeps:
  "calculate_penalty race r = Return u r' \<Longrightarrow> status r' = status r \<and> person r' = person r"
  by (auto simp: calculate_penalty_def calculate_trailo_penalty_def
        calculate_standard_penalty_def standard_penalty_assign_keeps Let_def
        split: option.splits if_splits sum.splits prod.splits)

lemma calculate_credit_time_keeps:
  "calculate_credit_time race r = Return u r' \<Longrightarrow> status r' = status r \<and> person r' = person r"
  by (auto simp: calculate_credit_time_def split: if_splits sum.splits)

lemma check_overtime_keeps:
  "person (check_overtime race r) = person r
   \<and> (status (check_overtime race r) = status r \<or> status (check_overtime race r) = OVERTIME)"
  by (auto simp: check_overtime_def Let_def split: option.splits)

lemma validate_result_status_keeps:
  "validate_result_status race r f = Return u r' \<Longrightarrow>
     person r' = person r
     \<and> (status r' = status r \<or> status r' = OVERTIME \<or> status r' = MISSING_PUNCH
          \<or> status r' = MISS_PENALTY_LAP)"
  using check_overtime_keeps [of race r]
  by (auto simp: validate_result_status_def split: if_splits sum.splits)

lemma checking_returns_person:
  "ResultChecker_checking race r = Return u r' \<Longrightarrow> person r \<noteq> None"
  by (cases "person r = None") (simp_all add: ResultChecker_checking_def)

lemma checking_unfold:
  assumes "person r \<noteq> None" and "status r \<notin> set checked_statuses"
    and "ResultChecker_checking race r = Return () r'"
  shows "\<exists>f r1 r2 r3 r4.
           check_result race (r\<lparr>status := OK\<rparr>) = Return f r1
           \<and> calculate_penalty race r1 = Return () r2
           \<and> calculate_credit_time race r2 = Return () r3
           \<and> validate_result_status race r3 f = Return () r4
           \<and> r' = r4\<lparr>status_comment := get_status_default_comment race (status r4)\<rparr>"
  using assms by (auto simp: ResultChecker_checking_def split: outcome.splits)

lemma checking_status_after:
  assumes keep: "\<forall>x c. status (snd (result_check race x c)) = status x
             \<and> person (snd (result_check race x c)) = person x"
    and ret: "ResultChecker_checking race r = Return () r'"
  shows "person r' = person r
         \<and> (status r' \<in> set checked_statuses
             \<or> (status r' = DISQUALIFIED \<and> result_processing_mode race = ''ardf''))"
proof -
  have p: "person r \<noteq> None"
    using checking_returns_person [OF ret] .
  show ?thesis
  proof (cases "status r \<in> set checked_statuses")
    case True
    with p ret show ?thesis by (auto simp: ResultChecker_checking_def)
  next
    case False
    from checking_unfold [OF p False ret] obtain f r1 r2 r3 r4 where
      s1: "check_result race (r\<lparr>status := OK\<rparr>) = Return f r1"
      and s2: "calculate_penalty race r1 = Return () r2"
      and s3: "calculate_credit_time race r2 = Return () r3"
      and s4: "validate_result_status race r3 f = Return () r4"
      and s5: "r' = r4\<lparr>status_comment := get_status_default_comment race (status r4)\<rparr>"
      by blast
    have k1: "person r1 = person r
         \<and> (status r1 = OK \<or> (status r1 = DISQUALIFIED \<and> result_processing_mode race = ''ardf''))"
      using check_result_keeps [OF keep s1] by simp
    have k2: "status r2 = status r1 \<and> person r2 = person r1"
      using calculate_penalty_keeps [OF s2] .
    have k3: "status r3 = status r2 \<and> person r3 = person r2"
      using calculate_credit_time_keeps [OF s3] .
    have k4: "person r4 = person r3
     \<and> (status r4 = status r3 \<or> status r4 = OVERTIME \<or> status r4 = MISSING_PUNCH
          \<or> status r4 = MISS_PENALTY_LAP)"
      using validate_result_status_keeps [OF s4] .
    have k5: "status r' = status r4 \<and> person r' = person r4"
      using s5 by simp
    show ?thesis using k1 k2 k3 k4 k5 by (auto simp: checked_statuses_def)
  qed
qed

text \<open>
  C2 (as amended).  Let \<open>Result.check\<close> leave the status and the person of a result as
  they are, and let a first call of \<open>checking\<close> return.  Then the person is unchanged and
  the status is one of \<open>OK\<close>, \<open>MISSING_PUNCH\<close>, \<open>OVERTIME\<close>, \<open>MISS_PENALTY_LAP\<close>,
  \<open>MULTI_DAY_ISSUE\<close> or, in the mode \<open>ardf\<close> only, \<open>DISQUALIFIED\<close>.  Unless it is
  \<open>DISQUALIFIED\<close>, a second call returns the result of the first call with every field
  as it is; in every mode other than \<open>ardf\<close> this is always so.
\<close>

theorem checking_twice:
  "(\<forall>x c. status (snd (result_check race x c)) = status x
             \<and> person (snd (result_check race x c)) = person x)
   \<and> ResultChecker_checking race r = Return () r1
   \<longrightarrow> person r1 = person r
       \<and> (status r1 \<in> {OK, MISSING_PUNCH, OVERTIME, MISS_PENALTY_LAP, MULTI_DAY_ISSUE}
           \<or> (status r1 = DISQUALIFIED \<and> result_processing_mode race = ''ardf''))
       \<and> (status r1 \<noteq> DISQUALIFIED \<longrightarrow> ResultChecker_checking race r1 = Return () r1)
       \<and> (result_processing_mode race \<noteq> ''ardf''
            \<longrightarrow> ResultChecker_checking race r1 = Return () r1)"
proof (intro impI, elim conjE)
  assume keep: "\<forall>x c. status (snd (result_check race x c)) = status x
             \<and> person (snd (result_check race x c)) = person x"
    and ret: "ResultChecker_checking race r = Return () r1"
  have p: "person r \<noteq> None"
    using checking_returns_person [OF ret] .
  have a: "person r1 = person r
         \<and> (status r1 \<in> set checked_statuses
             \<or> (status r1 = DISQUALIFIED \<and> result_processing_mode race = ''ardf''))"
    using checking_status_after [OF keep ret] .
  have b: "ResultChecker_checking race r1 = Return () r1" if "status r1 \<in> set checked_statuses"
    using that a p by (auto simp: ResultChecker_checking_def)
  show "person r1 = person r
       \<and> (status r1 \<in> {OK, MISSING_PUNCH, OVERTIME, MISS_PENALTY_LAP, MULTI_DAY_ISSUE}
           \<or> (status r1 = DISQUALIFIED \<and> result_processing_mode race = ''ardf''))
       \<and> (status r1 \<noteq> DISQUALIFIED \<longrightarrow> ResultChecker_checking race r1 = Return () r1)
       \<and> (result_processing_mode race \<noteq> ''ardf''
            \<longrightarrow> ResultChecker_checking race r1 = Return () r1)"
    using a b by (auto simp: checked_statuses_def)
qed


theorem checking_twice_witness:
  "(\<forall>x c. status (snd (result_check default_race x c)) = status x
             \<and> person (snd (result_check default_race x c)) = person x)
   \<and> ResultChecker_checking default_race
         (sample_result (Some (sample_person (Some (sample_group 3600000)))) DID_NOT_FINISH 3700000)
       = Return () (sample_result (Some (sample_person (Some (sample_group 3600000)))) OVERTIME 3700000)
   \<and> ResultChecker_checking default_race
         (sample_result (Some (sample_person (Some (sample_group 3600000)))) OVERTIME 3700000)
       = Return () (sample_result (Some (sample_person (Some (sample_group 3600000)))) OVERTIME 3700000)"
proof -
  have keep: "\<forall>x c. status (snd (result_check default_race x c)) = status x
             \<and> person (snd (result_check default_race x c)) = person x"
    by (simp add: default_race_def)
  have first: "ResultChecker_checking default_race
         (sample_result (Some (sample_person (Some (sample_group 3600000)))) DID_NOT_FINISH 3700000)
       = Return () (sample_result (Some (sample_person (Some (sample_group 3600000)))) OVERTIME 3700000)"
    by (simp add: ResultChecker_checking_def checked_statuses_def check_result_def
          process_standard_mode_def get_course_def calculate_penalty_def
          calculate_credit_time_def validate_result_status_def check_penalty_laps_def
          check_overtime_def person_group_def default_race_def sample_result_def
          sample_person_def sample_group_def elapsed_result_time_def Let_def)
  have st: "status (sample_result (Some (sample_person (Some (sample_group 3600000)))) OVERTIME 3700000)
              \<noteq> DISQUALIFIED"
    by (simp add: sample_result_def)
  show ?thesis
    using keep first st
      checking_twice [of default_race
        "sample_result (Some (sample_person (Some (sample_group 3600000)))) DID_NOT_FINISH 3700000"
        "sample_result (Some (sample_person (Some (sample_group 3600000)))) OVERTIME 3700000"]
    by blast
qed

theorem checking_twice_counterexample:
  "person ardf_credit_result \<noteq> None
   \<and> returned (ResultChecker_checking ardf_credit_race ardf_credit_result)
   \<and> status (outcome_result (ResultChecker_checking ardf_credit_race ardf_credit_result))
       = DISQUALIFIED
   \<and> scores_ardf (outcome_result (ResultChecker_checking ardf_credit_race ardf_credit_result))
       = 0
   \<and> returned (ResultChecker_checking ardf_credit_race
         (outcome_result (ResultChecker_checking ardf_credit_race ardf_credit_result)))
   \<and> status (outcome_result (ResultChecker_checking ardf_credit_race
         (outcome_result (ResultChecker_checking ardf_credit_race ardf_credit_result))))
       = OK
   \<and> scores_ardf (outcome_result (ResultChecker_checking ardf_credit_race
         (outcome_result (ResultChecker_checking ardf_credit_race ardf_credit_result))))
       = 1"
  by code_simp

subsection \<open>A person without group\<close>

lemma detach_regular_parse:
  "list_all (\<lambda>s. py_int (split_code s) \<noteq> None) spl \<Longrightarrow> \<exists>xs. detach_regular spl k = Inr xs"
  by (induction spl) auto

lemma detach_penalty_parse:
  "list_all (\<lambda>s. py_int (split_code s) \<noteq> None) spl \<Longrightarrow> \<exists>xs. detach_penalty spl k = Inr xs"
  by (induction spl) auto

lemma detach_penalty_laps2_parse:
  "list_all (\<lambda>s. py_int (split_code s) \<noteq> None) spl \<Longrightarrow>
     \<exists>xs ys. detach_penalty_laps2 spl k = Inr (xs, ys)"
  using detach_regular_parse [of spl k] detach_penalty_parse [of spl k]
  by (auto simp: detach_penalty_laps2_def)

lemma check_penalty_laps_parse:
  "list_all (\<lambda>s. py_int (split_code s) \<noteq> None) (splits r) \<Longrightarrow>
     \<exists>b. check_penalty_laps race r = Inr b"
  using detach_penalty_laps2_parse [of "splits r" "marked_route_penalty_lap_station_code race"]
  by (auto simp: check_penalty_laps_def)

lemma credit_loop_parse:
  "list_all (\<lambda>s. py_int (split_code s) \<noteq> None) spl \<Longrightarrow>
     \<exists>t. credit_loop prev spl cp acc = Inr t"
  by (induction prev spl cp acc rule: credit_loop.induct) (auto split: option.splits)

lemma calculate_credit_time_cases:
  "(\<exists>e. calculate_credit_time race r = Raise e r \<and> e = ValueError
         \<and> \<not> list_all (\<lambda>s. py_int (split_code s) \<noteq> None) (splits r))
   \<or> calculate_credit_time race r = Return () r
   \<or> (\<exists>t. calculate_credit_time race r = Return () (r\<lparr>credit_time := t\<rparr>))"
  using credit_loop_parse [of "splits r" None "credit_time_cp race" 0]
    credit_loop_error [of None "splits r" "credit_time_cp race" 0]
  by (cases "credit_calculation (splits r) (credit_time_cp race)")
     (auto simp: calculate_credit_time_def credit_calculation_def)

lemma validate_without_group:
  assumes "person_group r = None"
  shows "validate_result_status race r True =
           (case check_penalty_laps race r of
              Inl e \<Rightarrow> Raise e r
            | Inr ok \<Rightarrow> Return () (if ok then r else r\<lparr>status := MISS_PENALTY_LAP\<rparr>))"
  using assms
  by (auto simp: validate_result_status_def check_overtime_def split: sum.splits)

lemma checking_without_group_unfold:
  assumes "person r = Some p" and "group p = None"
    and "status r \<notin> set checked_statuses"
  shows "ResultChecker_checking race r =
           (case calculate_credit_time race (r\<lparr>status := OK\<rparr>) of
              Raise e x \<Rightarrow> Raise e x
            | Return u r3 \<Rightarrow>
                (case validate_result_status race r3 True of
                   Raise e x \<Rightarrow> Raise e x
                 | Return u r4 \<Rightarrow>
                     Return () (r4\<lparr>status_comment :=
                                  get_status_default_comment race (status r4)\<rparr>)))"
proof -
  have g: "person_group (r\<lparr>status := OK\<rparr>) = None"
    using assms by (simp add: person_group_def)
  have c: "check_result race (r\<lparr>status := OK\<rparr>) = Return True (r\<lparr>status := OK\<rparr>)"
    using g by (simp add: check_result_def)
  have pn: "calculate_penalty race (r\<lparr>status := OK\<rparr>) = Return () (r\<lparr>status := OK\<rparr>)"
    using g by (simp add: calculate_penalty_def Let_def)
  show ?thesis
    using assms(1,3) by (simp add: ResultChecker_checking_def c pn)
qed


lemma detach_penalty_Inr_parse:
  "detach_penalty spl k = Inr xs \<Longrightarrow> list_all (\<lambda>s. py_int (split_code s) \<noteq> None) spl"
  by (induction spl arbitrary: xs) (auto split: option.splits sum.splits)

lemma detach_penalty_laps2_Inr_parse:
  "detach_penalty_laps2 spl k = Inr (xs, ys) \<Longrightarrow>
     list_all (\<lambda>s. py_int (split_code s) \<noteq> None) spl"
  by (auto simp: detach_penalty_laps2_def split: if_splits sum.splits
        dest: detach_penalty_Inr_parse)

lemma check_penalty_laps_cases:
  "check_penalty_laps race r =
     (if marked_route_mode race = ''laps'' \<and> marked_route_if_station_check race
      then (case detach_penalty_laps2 (splits r) (marked_route_penalty_lap_station_code race) of
              Inl e \<Rightarrow> Inl e
            | Inr rp \<Rightarrow> Inr (\<not> int (length (snd rp)) < penalty_laps r))
      else Inr True)"
  by (auto simp: check_penalty_laps_def split: sum.splits)

text \<open>
  The outcome of \<open>checking\<close> for a person without group, in terms of the result \<open>r3\<close>
  that the credit time calculation leaves.
\<close>

lemma checking_without_group_after_credit:
  assumes "person r = Some p" and "group p = None"
    and "status r \<notin> set checked_statuses"
    and "calculate_credit_time race (r\<lparr>status := OK\<rparr>) = Return () r3"
    and "r3 = r\<lparr>status := OK\<rparr> \<or> (\<exists>t. r3 = r\<lparr>status := OK, credit_time := t\<rparr>)"
  shows "ResultChecker_checking race r =
           (case check_penalty_laps race r of
              Inl e \<Rightarrow> Raise e r3
            | Inr ok \<Rightarrow>
                Return () ((if ok then r3 else r3\<lparr>status := MISS_PENALTY_LAP\<rparr>)
                  \<lparr>status_comment := get_status_default_comment race
                      (if ok then OK else MISS_PENALTY_LAP)\<rparr>))"
proof -
  have g: "person_group r3 = None"
    using assms(1,2,5) by (auto simp: person_group_def)
  have l: "check_penalty_laps race r3 = check_penalty_laps race r"
    using assms(5) by (auto simp: check_penalty_laps_cases split: sum.splits)
  have st: "status r3 = OK"
    using assms(5) by auto
  show ?thesis
    by (simp add: checking_without_group_unfold [OF assms(1-3)] assms(4)
          validate_without_group [OF g] l st split: sum.splits)
qed

text \<open>
  C10 (as amended).  Let the result have a person without group and a status other than
  \<open>OK\<close>, \<open>MISSING_PUNCH\<close>, \<open>OVERTIME\<close>, \<open>MISS_PENALTY_LAP\<close> and \<open>MULTI_DAY_ISSUE\<close>.  Then
  \<open>checking\<close> leaves the result with the status \<open>OK\<close> or \<open>MISS_PENALTY_LAP\<close>, so never with
  \<open>MISSING_PUNCH\<close>, \<open>OVERTIME\<close> or \<open>DISQUALIFIED\<close>, whatever the processing mode.  The status
  is \<open>MISS_PENALTY_LAP\<close> exactly when the marked-route mode is \<open>laps\<close> with the station
  check and the punches hold fewer penalty laps than the result's \<open>penalty_laps\<close>.  The
  only exception \<open>checking\<close> can raise is \<open>ValueError\<close>, and it returns when every punch
  code is an integer literal.
\<close>

theorem checking_without_group:
  "person r = Some p \<and> group p = None
   \<and> status r \<notin> {OK, MISSING_PUNCH, OVERTIME, MISS_PENALTY_LAP, MULTI_DAY_ISSUE}
   \<longrightarrow> (status (outcome_result (ResultChecker_checking race r)) = OK
        \<or> status (outcome_result (ResultChecker_checking race r)) = MISS_PENALTY_LAP)
       \<and> (status (outcome_result (ResultChecker_checking race r)) = MISS_PENALTY_LAP
            \<longleftrightarrow> marked_route_mode race = ''laps'' \<and> marked_route_if_station_check race
                \<and> (\<exists>regular penalty.
                      detach_penalty_laps2 (splits r)
                        (marked_route_penalty_lap_station_code race) = Inr (regular, penalty)
                      \<and> int (length penalty) < penalty_laps r))
       \<and> (\<forall>e x. ResultChecker_checking race r = Raise e x \<longrightarrow> e = ValueError)
       \<and> (list_all (\<lambda>s. py_int (split_code s) \<noteq> None) (splits r)
            \<longrightarrow> returned (ResultChecker_checking race r))"
proof (intro impI, elim conjE)
  assume p: "person r = Some p" and g: "group p = None"
    and s: "status r \<notin> {OK, MISSING_PUNCH, OVERTIME, MISS_PENALTY_LAP, MULTI_DAY_ISSUE}"
  let ?X = "ResultChecker_checking race r"
  let ?parse = "list_all (\<lambda>s. py_int (split_code s) \<noteq> None) (splits r)"
  let ?miss = "marked_route_mode race = ''laps'' \<and> marked_route_if_station_check race
                \<and> (\<exists>regular penalty.
                      detach_penalty_laps2 (splits r)
                        (marked_route_penalty_lap_station_code race) = Inr (regular, penalty)
                      \<and> int (length penalty) < penalty_laps r)"
  have s': "status r \<notin> set checked_statuses"
    using s by (simp add: checked_statuses_def)
  have goal: "(status (outcome_result ?X) = OK \<or> status (outcome_result ?X) = MISS_PENALTY_LAP)
       \<and> (status (outcome_result ?X) = MISS_PENALTY_LAP \<longleftrightarrow> ?miss)
       \<and> (\<forall>e x. ?X = Raise e x \<longrightarrow> e = ValueError)
       \<and> (?parse \<longrightarrow> returned ?X)"
    using calculate_credit_time_cases [of race "r\<lparr>status := OK\<rparr>"]
  proof (elim disjE exE conjE)
    fix e
    assume c: "calculate_credit_time race (r\<lparr>status := OK\<rparr>) = Raise e (r\<lparr>status := OK\<rparr>)"
      and e: "e = ValueError"
      and np: "\<not> list_all (\<lambda>s. py_int (split_code s) \<noteq> None) (splits (r\<lparr>status := OK\<rparr>))"
    have x: "?X = Raise ValueError (r\<lparr>status := OK\<rparr>)"
      unfolding checking_without_group_unfold [OF p g s'] c using e by simp
    have "\<not> ?miss"
      using np detach_penalty_laps2_Inr_parse [of "splits r"] by auto
    then show ?thesis using x np by simp
  next
    assume c: "calculate_credit_time race (r\<lparr>status := OK\<rparr>) = Return () (r\<lparr>status := OK\<rparr>)"
    show ?thesis
      unfolding checking_without_group_after_credit [OF p g s' c, simplified]
      using check_penalty_laps_parse [of r race] check_penalty_laps_error [of race r]
      by (cases "check_penalty_laps race r")
         (auto simp: check_penalty_laps_cases split: if_splits sum.splits)
  next
    fix t
    assume c: "calculate_credit_time race (r\<lparr>status := OK\<rparr>)
                 = Return () (r\<lparr>status := OK, credit_time := t\<rparr>)"
    have d: "r\<lparr>status := OK, credit_time := t\<rparr> = r\<lparr>status := OK\<rparr>
             \<or> (\<exists>t'. r\<lparr>status := OK, credit_time := t\<rparr> = r\<lparr>status := OK, credit_time := t'\<rparr>)"
      by blast
    show ?thesis
      unfolding checking_without_group_after_credit [OF p g s' c d]
      using check_penalty_laps_parse [of r race] check_penalty_laps_error [of race r]
      by (cases "check_penalty_laps race r")
         (auto simp: check_penalty_laps_cases split: if_splits sum.splits)
  qed
  then show "(status (outcome_result ?X) = OK \<or> status (outcome_result ?X) = MISS_PENALTY_LAP)
       \<and> (status (outcome_result ?X) = MISS_PENALTY_LAP \<longleftrightarrow> ?miss)
       \<and> (\<forall>e x. ?X = Raise e x \<longrightarrow> e = ValueError)
       \<and> (?parse \<longrightarrow> returned ?X)" .
qed

theorem checking_without_group_witness:
  "person (sample_result (Some (sample_person None)) DID_NOT_START 100) = Some (sample_person None)
   \<and> group (sample_person None) = None
   \<and> status (sample_result (Some (sample_person None)) DID_NOT_START 100) = DID_NOT_START
   \<and> list_all (\<lambda>s. py_int (split_code s) \<noteq> None)
         (splits (sample_result (Some (sample_person None)) DID_NOT_START 100))
   \<and> returned (ResultChecker_checking default_race
         (sample_result (Some (sample_person None)) DID_NOT_START 100))
   \<and> status (outcome_result (ResultChecker_checking default_race
         (sample_result (Some (sample_person None)) DID_NOT_START 100))) = OK"
proof -
  have a: "person (sample_result (Some (sample_person None)) DID_NOT_START 100)
             = Some (sample_person None)"
    by (simp add: sample_result_def)
  have b: "group (sample_person None) = None"
    by (simp add: sample_person_def)
  have c: "status (sample_result (Some (sample_person None)) DID_NOT_START 100) = DID_NOT_START"
    by (simp add: sample_result_def)
  have d: "list_all (\<lambda>s. py_int (split_code s) \<noteq> None)
         (splits (sample_result (Some (sample_person None)) DID_NOT_START 100))"
    by (simp add: sample_result_def)
  have m: "marked_route_mode default_race \<noteq> ''laps''"
    by (simp add: default_race_def)
  show ?thesis
    using a b c d m
      checking_without_group [of "sample_result (Some (sample_person None)) DID_NOT_START 100"
        "sample_person None" default_race]
    by auto
qed

theorem checking_without_group_counterexample:
  "person laps_result = Some (sample_person None)
   \<and> group (sample_person None) = None
   \<and> status laps_result = DID_NOT_START
   \<and> returned (ResultChecker_checking laps_race laps_result)
   \<and> status (outcome_result (ResultChecker_checking laps_race laps_result)) = MISS_PENALTY_LAP"
  by code_simp

section \<open>Properties of the group ranking\<close>

lemma priority_of_zero: "priority_of status_value st = 0"
  by (simp add: priority_of_def status_priority_def)

lemma insort_key_cong_le:
  assumes "\<And>a b. f a \<le> f b \<longleftrightarrow> g a \<le> g b"
  shows "insort_key f x xs = insort_key g x xs"
  by (induction xs) (simp_all add: assms)

lemma sort_key_cong_le:
  assumes "\<And>a b. f a \<le> f b \<longleftrightarrow> g a \<le> g b"
  shows "sort_key f xs = sort_key g xs"
  by (induction xs) (simp_all add: insort_key_cong_le [OF assms])

lemma result_sort_key_le:
  "result_sort_key status_value k a \<le> result_sort_key status_value k b
     \<longleftrightarrow> k (ps_result a) \<le> k (ps_result b)"
  by (auto simp: result_sort_key_def priority_of_zero less_eq_prod_def less_prod_def)

text \<open>
  C9.  The final order of a group that is no relay is meant to put the \<open>OK\<close> results
  first and the results with status \<open>OVERTIME\<close>, \<open>MISSING_PUNCH\<close>, \<open>DISQUALIFIED\<close>,
  \<open>DID_NOT_FINISH\<close>, \<open>DID_NOT_START\<close> after them in that fixed order.  The code does not do
  so: the list \<open>status_priority\<close> holds the integer values of the five members, the
  status looked up in it is a member, and no member is equal to an integer.  Whatever
  the values of the members are, the priority is 0 for every status, the five listed
  ones included; the sort is the stable sort by the result alone, with no part for the
  status priority; and a \<open>DISQUALIFIED\<close> result put in before an \<open>OVERTIME\<close> result with
  the same result time stays before it, though \<open>OVERTIME\<close> is first of the five in the
  list and \<open>DISQUALIFIED\<close> third.
\<close>

theorem sort_by_result_priority_zero:
  "map (priority_of status_value)
       [OK, OVERTIME, MISSING_PUNCH, DISQUALIFIED, DID_NOT_FINISH, DID_NOT_START,
        MISS_PENALTY_LAP, MULTI_DAY_ISSUE]
     = [0, 0, 0, 0, 0, 0, 0, 0]
   \<and> sort_by_result status_value result_key pss
       = sort_key (\<lambda>item. result_key (ps_result item)) pss
   \<and> map (\<lambda>item. status (ps_result item))
       (sort_by_result status_value elapsed_result_time
          [sample_person_splits DISQUALIFIED 3600000, sample_person_splits OVERTIME 3600000])
     = [DISQUALIFIED, OVERTIME]"
proof -
  have a: "map (priority_of status_value)
       [OK, OVERTIME, MISSING_PUNCH, DISQUALIFIED, DID_NOT_FINISH, DID_NOT_START,
        MISS_PENALTY_LAP, MULTI_DAY_ISSUE]
     = [0, 0, 0, 0, 0, 0, 0, 0]"
    by (simp add: priority_of_zero)
  have b: "sort_by_result status_value k xs = sort_key (\<lambda>item. k (ps_result item)) xs"
    for k :: "Result \<Rightarrow> 'c::linorder" and xs
    unfolding sort_by_result_def
    by (rule sort_key_cong_le) (rule result_sort_key_le)
  have c: "map (\<lambda>item. status (ps_result item))
       (sort_by_result status_value elapsed_result_time
          [sample_person_splits DISQUALIFIED 3600000, sample_person_splits OVERTIME 3600000])
     = [DISQUALIFIED, OVERTIME]"
    by (simp add: b sample_person_splits_def sample_result_def elapsed_result_time_def)
  show ?thesis using a b [of result_key pss] c by simp
qed

subsection \<open>Leg places\<close>

lemma find_update_first:
  "(\<And>x. P x \<Longrightarrow> P (f x)) \<Longrightarrow>
     List.find P (update_first P f xs) = map_option f (List.find P xs)"
  by (induction xs) auto

lemma get_leg_update_leg:
  "get_leg_by_course_index (update_leg idx (set_place rel v l) item) idx
     = map_option (set_place rel v l) (get_leg_by_course_index item idx)"
proof -
  have "course_index s = idx \<Longrightarrow> course_index (set_place rel v l s) = idx" for s
    by (simp add: set_place_def)
  then show ?thesis
    by (simp add: get_leg_by_course_index_def update_leg_def find_update_first)
qed

lemma leg_time_of_alt:
  "leg_time_of idx rel item = map_option (time_attr rel) (get_leg_by_course_index item idx)"
  by (simp add: leg_time_of_def get_leg_time_def get_leg_relative_time_def time_attr_def
        split: option.splits)

lemma leg_place_of_alt:
  "leg_place_of idx rel item = map_option (place_attr rel) (get_leg_by_course_index item idx)"
  by (simp add: leg_place_of_def split: option.splits)

lemma time_attr_set_place: "time_attr rel (set_place rel v l leg) = time_attr rel leg"
  by (simp add: time_attr_def set_place_def)

lemma place_attr_set_place: "place_attr rel (set_place rel v l leg) = v"
  by (simp add: place_attr_def set_place_def)

lemma places_loop_times:
  "map (leg_time_of idx rel) (places_loop idx rel l i c prev items)
     = map (leg_time_of idx rel) items"
  by (induction items arbitrary: i c prev)
     (auto simp: leg_time_of_alt get_leg_update_leg time_attr_set_place Let_def
        split: option.splits)

lemma places_loop_places:
  "map (leg_place_of idx rel) (places_loop idx rel l i c prev items)
     = places_of_times i c prev (map (leg_time_of idx rel) items)"
  by (induction items arbitrary: i c prev)
     (auto simp: leg_time_of_alt leg_place_of_alt get_leg_update_leg place_attr_set_place
        Let_def split: option.splits)

lemma time_key_le_Some:
  "time_key u \<le> time_key (Some t) \<longleftrightarrow> (\<exists>v. u = Some v \<and> v \<le> t)"
  by (cases u) (auto simp: time_key_def less_eq_prod_def)

lemma time_key_Some_le:
  "time_key (Some t) \<le> time_key u \<longleftrightarrow> (u = None \<or> (\<exists>v. u = Some v \<and> t \<le> v))"
  by (cases u) (auto simp: time_key_def less_eq_prod_def)

lemma time_key_None_le: "time_key None \<le> time_key u \<longleftrightarrow> u = None"
  by (cases u) (auto simp: time_key_def less_eq_prod_def)

lemma places_of_times_none:
  "\<forall>t\<in>set ts. t = None \<Longrightarrow>
     list_all2 (\<lambda>t p. case t of None \<Rightarrow> p = None | Some u \<Rightarrow> Q u p)
       ts (places_of_times i c prev ts)"
  by (induction ts arbitrary: i) auto

lemma strictly_better_append:
  "strictly_better t (xs @ ys) = strictly_better t xs + strictly_better t ys"
  by (simp add: strictly_better_def)

lemma strictly_better_none:
  "\<forall>u\<in>set xs. u = None \<or> (\<exists>v. u = Some v \<and> t \<le> v) \<Longrightarrow> strictly_better t xs = 0"
  by (induction xs) (auto simp: strictly_better_def)

lemma strictly_better_all:
  "\<forall>u\<in>set xs. \<exists>v. u = Some v \<and> v < t \<Longrightarrow> strictly_better t xs = length xs"
  by (induction xs) (auto simp: strictly_better_def)

lemma sorted_keys_Cons:
  assumes "sorted (map time_key (pre @ x # xs))"
  shows "\<forall>u\<in>set pre. time_key u \<le> time_key x"
    and "\<forall>u\<in>set xs. time_key x \<le> time_key u"
    and "sorted (map time_key pre)"
proof -
  have s: "sorted (map time_key pre @ time_key x # map time_key xs)"
    using assms by simp
  show "\<forall>u\<in>set pre. time_key u \<le> time_key x"
    using s unfolding sorted_append by simp
  have "sorted (time_key x # map time_key xs)"
    using s unfolding sorted_append by blast
  then show "\<forall>u\<in>set xs. time_key x \<le> time_key u"
    by simp
  show "sorted (map time_key pre)"
    using s unfolding sorted_append by blast
qed



lemma sorted_le_last: "sorted xs \<Longrightarrow> x \<in> set xs \<Longrightarrow> x \<le> last xs"
  by (induction xs) auto

lemma places_of_times_sorted:
  assumes "sorted (map time_key (pre @ ts))"
    and "i = int (length pre)"
    and "pre \<noteq> [] \<Longrightarrow>
           \<exists>tl. last pre = Some tl \<and> prev = Some tl \<and> i - c = 1 + int (strictly_better tl pre)"
  shows "list_all2
           (\<lambda>t p. case t of None \<Rightarrow> p = None
                   | Some u \<Rightarrow> p = Some (1 + int (strictly_better u (pre @ ts))))
           ts (places_of_times i c prev ts)"
  using assms
proof (induction ts arbitrary: pre i c prev)
  case Nil
  then show ?case by simp
next
  case (Cons x xs)
  note keys = sorted_keys_Cons [OF Cons.prems(1)]
  show ?case
  proof (cases x)
    case None
    have "\<forall>u\<in>set xs. u = None"
      using keys(2) unfolding None time_key_None_le .
    then have "\<forall>u\<in>set (x # xs). u = None"
      using None by simp
    then show ?thesis
      by (rule places_of_times_none)
  next
    case (Some t)
    have before: "\<forall>u\<in>set pre. \<exists>v. u = Some v \<and> v \<le> t"
      using keys(1) unfolding Some time_key_le_Some .
    have after: "\<forall>u\<in>set xs. u = None \<or> (\<exists>v. u = Some v \<and> t \<le> v)"
      using keys(2) unfolding Some time_key_Some_le .
    have "strictly_better t (x # xs) = 0"
      using strictly_better_none [OF after] Some by (simp add: strictly_better_def)
    then have cnt: "strictly_better t (pre @ x # xs) = strictly_better t pre"
      by (simp add: strictly_better_append)
    have cnt1: "strictly_better t (pre @ [x]) = strictly_better t pre"
      using Some by (simp add: strictly_better_def)
    define counter where "counter = (if i > 0 \<and> prev = Some t then c + 1 else 0)"
    have place: "i + 1 - counter = 1 + int (strictly_better t pre)"
    proof (cases "pre = []")
      case True
      then show ?thesis
        using Cons.prems(2) by (simp add: counter_def strictly_better_def)
    next
      case False
      then obtain tl where tl: "last pre = Some tl" "prev = Some tl"
        "i - c = 1 + int (strictly_better tl pre)"
        using Cons.prems(3) by blast
      have ipos: "i > 0" using False Cons.prems(2) by simp
      have "Some tl \<in> set pre" using False tl(1) last_in_set by metis
      then have le: "tl \<le> t" using before by auto
      show ?thesis
      proof (cases "tl = t")
        case True
        then show ?thesis using tl ipos by (simp add: counter_def)
      next
        case neq: False
        then have lt: "tl < t" using le by simp
        have "\<forall>u\<in>set pre. \<exists>v. u = Some v \<and> v < t"
        proof
          fix u assume u: "u \<in> set pre"
          then have "time_key u \<in> set (map time_key pre)" by simp
          then have "time_key u \<le> last (map time_key pre)"
            using keys(3) sorted_le_last by blast
          then have "time_key u \<le> time_key (Some tl)"
            using False tl(1) by (simp add: last_map)
          then obtain v where "u = Some v" "v \<le> tl"
            unfolding time_key_le_Some by blast
          then show "\<exists>v. u = Some v \<and> v < t"
            using lt by simp
        qed
        then have "strictly_better t pre = length pre"
          by (rule strictly_better_all)
        then show ?thesis
          using neq tl(2) Cons.prems(2) by (simp add: counter_def)
      qed
    qed
    have s': "sorted (map time_key ((pre @ [x]) @ xs))"
      using Cons.prems(1) by simp
    have i': "i + 1 = int (length (pre @ [x]))"
      using Cons.prems(2) by simp
    have inv': "\<exists>tl. last (pre @ [x]) = Some tl \<and> Some t = Some tl
                  \<and> i + 1 - counter = 1 + int (strictly_better tl (pre @ [x]))"
      using place Some cnt1 by simp
    have rest: "list_all2
           (\<lambda>t p. case t of None \<Rightarrow> p = None
                   | Some u \<Rightarrow> p = Some (1 + int (strictly_better u ((pre @ [x]) @ xs))))
           xs (places_of_times (i + 1) counter (Some t) xs)"
      using Cons.IH [OF s' i'] inv' by blast
    have eq: "(pre @ [x]) @ xs = pre @ x # xs"
      by simp
    have rest': "list_all2
           (\<lambda>t p. case t of None \<Rightarrow> p = None
                   | Some u \<Rightarrow> p = Some (1 + int (strictly_better u (pre @ x # xs))))
           xs (places_of_times (i + 1) counter (Some t) xs)"
      using rest unfolding eq .
    have hd: "places_of_times i c prev (x # xs)
              = Some (i + 1 - counter) # places_of_times (i + 1) counter (Some t) xs"
      unfolding Some by (simp add: counter_def Let_def)
    show ?thesis
      unfolding hd using rest' place cnt Some by simp
  qed
qed


lemma set_places_for_leg_times:
  "map (leg_time_of idx rel) (set_places_for_leg idx rel items)
     = map (leg_time_of idx rel) items"
  by (simp add: set_places_for_leg_def places_loop_times Let_def)

lemma set_places_for_leg_places:
  "\<exists>l. map (leg_place_of idx rel) (set_places_for_leg idx rel items)
         = places_of_times 0 0 l (map (leg_time_of idx rel) items)"
  by (cases "items = []") (auto simp: set_places_for_leg_def places_loop_places Let_def)

lemma sort_by_leg_sorted:
  "sorted (map time_key (map (leg_time_of idx rel) (sort_by_leg idx rel pss)))"
proof -
  have k: "leg_sort_key idx rel = (\<lambda>item. time_key (leg_time_of idx rel item))"
    by (rule ext) (simp add: leg_sort_key_def leg_time_of_def)
  have "sorted (map (leg_sort_key idx rel) (sort_by_leg idx rel pss))"
    by (simp add: sort_by_leg_def)
  then show ?thesis
    by (simp add: k comp_def)
qed

lemma strictly_better_mset:
  "mset xs = mset ys \<Longrightarrow> strictly_better t xs = strictly_better t ys"
proof -
  assume "mset xs = mset ys"
  then have "mset (filter (\<lambda>u. case u of None \<Rightarrow> False | Some v \<Rightarrow> v < t) xs)
             = mset (filter (\<lambda>u. case u of None \<Rightarrow> False | Some v \<Rightarrow> v < t) ys)"
    by simp
  then show ?thesis
    unfolding strictly_better_def by (rule mset_eq_length)
qed

lemma list_all2_maps:
  "list_all2 P (map f xs) (map g xs) \<longleftrightarrow> list_all (\<lambda>x. P (f x) (g x)) xs"
  by (induction xs) simp_all

lemma leg_places_sorted:
  "list_all
     (\<lambda>item. case leg_time_of idx rel item of
               None \<Rightarrow> leg_place_of idx rel item = None
             | Some t \<Rightarrow>
                 leg_place_of idx rel item
                   = Some (1 + int (strictly_better t (map (leg_time_of idx rel) pss))))
     (set_places_for_leg idx rel (sort_by_leg idx rel pss))"
proof -
  let ?S = "sort_by_leg idx rel pss"
  let ?out = "set_places_for_leg idx rel ?S"
  let ?T = "map (leg_time_of idx rel) ?S"
  obtain l where pl: "map (leg_place_of idx rel) ?out = places_of_times 0 0 l ?T"
    using set_places_for_leg_places by blast
  have tm: "map (leg_time_of idx rel) ?out = ?T"
    by (rule set_places_for_leg_times)
  have srt: "sorted (map time_key ([] @ ?T))"
    using sort_by_leg_sorted [of idx rel pss] by simp
  have "list_all2
           (\<lambda>t p. case t of None \<Rightarrow> p = None
                   | Some u \<Rightarrow> p = Some (1 + int (strictly_better u ([] @ ?T))))
           ?T (places_of_times 0 0 l ?T)"
    by (rule places_of_times_sorted [OF srt]) simp_all
  then have a: "list_all2
           (\<lambda>t p. case t of None \<Rightarrow> p = None
                   | Some u \<Rightarrow> p = Some (1 + int (strictly_better u ?T)))
           (map (leg_time_of idx rel) ?out) (map (leg_place_of idx rel) ?out)"
    unfolding pl tm append_Nil .
  have "mset ?T = mset (map (leg_time_of idx rel) pss)"
    by (simp add: sort_by_leg_def)
  then have sb: "strictly_better u ?T = strictly_better u (map (leg_time_of idx rel) pss)" for u
    by (rule strictly_better_mset)
  show ?thesis
    using a unfolding list_all2_maps sb .
qed

text \<open>
  C8.  After the persons of a group have been sorted by their time on a leg, ascending
  and with the persons lacking the leg last, \<open>_set_places_for_leg\<close> leaves every time
  as it is and gives every person with the leg the place one plus the number of persons
  of the group with a strictly better time on that leg.  So persons with equal times
  share a place, and a person behind exactly two tied leaders has place 3: for the leg
  times 20, none, 10, 10 the places are 1, 1, 3 and none.  The same holds of the
  relative times and places.
\<close>

theorem leg_places_tie_sharing:
  "mset (sort_by_leg index relative pss) = mset pss
   \<and> sorted (map time_key (map (leg_time_of index relative) (sort_by_leg index relative pss)))
   \<and> map (leg_time_of index relative)
         (set_places_for_leg index relative (sort_by_leg index relative pss))
       = map (leg_time_of index relative) (sort_by_leg index relative pss)
   \<and> list_all
        (\<lambda>item. case leg_time_of index relative item of
                  None \<Rightarrow> leg_place_of index relative item = None
                | Some t \<Rightarrow>
                    leg_place_of index relative item
                      = Some (1 + int (strictly_better t (map (leg_time_of index relative) pss))))
        (set_places_for_leg index relative (sort_by_leg index relative pss))
   \<and> (\<forall>a b. a \<in> set (set_places_for_leg index relative (sort_by_leg index relative pss))
          \<and> b \<in> set (set_places_for_leg index relative (sort_by_leg index relative pss))
          \<and> leg_time_of index relative a = leg_time_of index relative b
          \<longrightarrow> leg_place_of index relative a = leg_place_of index relative b)
   \<and> map (leg_place_of 0 False)
         (set_places_for_leg 0 False (sort_by_leg 0 False tied_group))
       = [Some 1, Some 1, Some 3, None]"
proof -
  let ?out = "set_places_for_leg index relative (sort_by_leg index relative pss)"
  have a: "mset (sort_by_leg index relative pss) = mset pss"
    by (simp add: sort_by_leg_def)
  note b = sort_by_leg_sorted [of index relative pss]
  note c = set_places_for_leg_times [of index relative "sort_by_leg index relative pss"]
  note d = leg_places_sorted [of index relative pss]
  have e: "leg_place_of index relative x = leg_place_of index relative y"
    if "x \<in> set ?out \<and> y \<in> set ?out
        \<and> leg_time_of index relative x = leg_time_of index relative y" for x y
  proof -
    have px: "case leg_time_of index relative x of
               None \<Rightarrow> leg_place_of index relative x = None
             | Some t \<Rightarrow>
                 leg_place_of index relative x
                   = Some (1 + int (strictly_better t (map (leg_time_of index relative) pss)))"
      using d that unfolding list_all_iff by blast
    have py: "case leg_time_of index relative y of
               None \<Rightarrow> leg_place_of index relative y = None
             | Some t \<Rightarrow>
                 leg_place_of index relative y
                   = Some (1 + int (strictly_better t (map (leg_time_of index relative) pss)))"
      using d that unfolding list_all_iff by blast
    show ?thesis
      using px py that by (cases "leg_time_of index relative y") simp_all
  qed
  have f: "map (leg_place_of 0 False)
         (set_places_for_leg 0 False (sort_by_leg 0 False tied_group))
       = [Some 1, Some 1, Some 3, None]"
    by code_simp
  show ?thesis
    using a b c d e f by blast
qed

theorem leg_places_tie_sharing_witness:
  "set_places_for_leg 0 False (sort_by_leg 0 False tied_group) ! 0
     \<in> set (set_places_for_leg 0 False (sort_by_leg 0 False tied_group))
   \<and> set_places_for_leg 0 False (sort_by_leg 0 False tied_group) ! 1
     \<in> set (set_places_for_leg 0 False (sort_by_leg 0 False tied_group))
   \<and> leg_time_of 0 False (set_places_for_leg 0 False (sort_by_leg 0 False tied_group) ! 0)
       = leg_time_of 0 False (set_places_for_leg 0 False (sort_by_leg 0 False tied_group) ! 1)
   \<and> leg_place_of 0 False (set_places_for_leg 0 False (sort_by_leg 0 False tied_group) ! 0)
       = leg_place_of 0 False (set_places_for_leg 0 False (sort_by_leg 0 False tied_group) ! 1)"
proof -
  have len: "length (set_places_for_leg 0 False (sort_by_leg 0 False tied_group)) = 4"
    by code_simp
  have m0: "set_places_for_leg 0 False (sort_by_leg 0 False tied_group) ! 0
     \<in> set (set_places_for_leg 0 False (sort_by_leg 0 False tied_group))"
    using len by simp
  have m1: "set_places_for_leg 0 False (sort_by_leg 0 False tied_group) ! 1
     \<in> set (set_places_for_leg 0 False (sort_by_leg 0 False tied_group))"
    using len by simp
  have t: "leg_time_of 0 False (set_places_for_leg 0 False (sort_by_leg 0 False tied_group) ! 0)
       = leg_time_of 0 False (set_places_for_leg 0 False (sort_by_leg 0 False tied_group) ! 1)"
    by code_simp
  show ?thesis
    using m0 m1 t leg_places_tie_sharing [of 0 False tied_group] by blast
qed

section \<open>Properties of the ARDF score\<close>

lemma ardf_while_step:
  "ardf_while co code ini i ua ret = (i', ua', ret') \<Longrightarrow>
     (ua' = ua \<and> ret' = ret) \<or> (code \<notin> set ua \<and> ua' = ua @ [code] \<and> ret' = ret + 1)"
proof (induction co code ini i ua ret rule: ardf_while.induct)
  case (1 co code ini i ua ret)
  show ?case
    using "1.prems" "1.IH"
    by (subst (asm) ardf_while.simps) (auto split: if_splits)
qed

lemma ardf_loop_invariant:
  "ardf_loop co spl i ua ret = (i', ua', ret') \<Longrightarrow>
     ret = int (length ua) \<Longrightarrow> distinct ua \<Longrightarrow> set ua \<subseteq> A \<Longrightarrow>
     set (map split_code spl) \<subseteq> A \<Longrightarrow>
     ret' = int (length ua') \<and> distinct ua' \<and> set ua' \<subseteq> A"
proof (induction spl arbitrary: i ua ret)
  case Nil
  then show ?case by auto
next
  case (Cons s spl)
  obtain j ub r where w: "ardf_while co (split_code s) i i ua ret = (j, ub, r)"
    using prod_cases3 by blast
  have l: "ardf_loop co spl j ub r = (i', ua', ret')"
    using Cons.prems(1) w by simp
  have "r = int (length ub) \<and> distinct ub \<and> set ub \<subseteq> A"
    using ardf_while_step [OF w] Cons.prems(2-5) by auto
  then show ?case
    using Cons.IH [OF l] Cons.prems(5) by simp
qed

text \<open>
  The walk for one punch: it passes the optional controls that do not take the punch and
  stops at the plain control of the punched code.
\<close>

lemma ardf_while_skip:
  assumes "i \<le> p" and "p < length co"
    and "\<forall>j. i \<le> j \<and> j < p \<longrightarrow>
           is_optional (co ! j) \<and> bracketed (co ! j) \<and> code \<notin> option_set (co ! j)"
    and "\<not> is_optional (co ! p)" and "co ! p = code" and "code \<notin> set ua"
  shows "ardf_while co code ini i ua ret = (p + 1, ua @ [code], ret + 1)"
  using assms(1,3)
proof (induction "p - i" arbitrary: i)
  case 0
  then have "i = p" by simp
  then show ?case
    using assms(2,4,5,6) by (subst ardf_while.simps) (simp add: is_optional_def)
next
  case (Suc n)
  then have lt: "i < p" by simp
  have here: "is_optional (co ! i) \<and> bracketed (co ! i) \<and> code \<notin> option_set (co ! i)"
    using Suc.prems(2) lt by simp
  have next_eq: "ardf_while co code ini (i + 1) ua ret = (p + 1, ua @ [code], ret + 1)"
  proof (rule Suc.hyps(1))
    show "n = p - (i + 1)" using Suc.hyps(2) by simp
    show "i + 1 \<le> p" using lt by simp
    show "\<forall>j. i + 1 \<le> j \<and> j < p \<longrightarrow>
           is_optional (co ! j) \<and> bracketed (co ! j) \<and> code \<notin> option_set (co ! j)"
      using Suc.prems(2) by simp
  qed
  have "i < length co" using lt assms(2) by simp
  then show ?case
    using here next_eq
    by (subst ardf_while.simps) (simp add: is_optional_def bracketed_def option_set_def)
qed

lemma ardf_loop_skip:
  assumes "\<forall>cp\<in>set co. is_optional cp \<longrightarrow>
             bracketed cp \<and> option_set cp \<inter> set (map split_code spl) = {}"
    and "map split_code spl = filter (\<lambda>cp. \<not> is_optional cp) (drop i co)"
    and "distinct (map split_code spl)"
    and "set (map split_code spl) \<inter> set ua = {}"
  shows "snd (snd (ardf_loop co spl i ua ret)) = ret + int (length spl)"
  using assms
proof (induction spl arbitrary: i ua ret)
  case Nil
  then show ?case by simp
next
  case (Cons s spl)
  let ?c = "split_code s"
  have "filter (\<lambda>cp. \<not> is_optional cp) (drop i co) = ?c # map split_code spl"
    using Cons.prems(2) by simp
  then obtain us vs where d: "drop i co = us @ ?c # vs"
    and us: "\<forall>u\<in>set us. is_optional u" and c: "\<not> is_optional ?c"
    and vs: "map split_code spl = filter (\<lambda>cp. \<not> is_optional cp) vs"
    unfolding filter_eq_Cons_iff by auto
  define p where "p = i + length us"
  have len: "length (drop i co) = length us + Suc (length vs)"
    using d by (metis length_append length_Cons)
  then have pl: "p < length co"
    unfolding p_def by simp
  have nth: "co ! (i + k) = (us @ ?c # vs) ! k" if "k \<le> length us" for k
  proof -
    have "i + k < length co" using that len by simp
    then have "drop i co ! k = co ! (i + k)" by simp
    then show ?thesis using d by simp
  qed
  have cp: "co ! p = ?c"
    unfolding p_def using nth [of "length us"] by simp
  have opt: "\<forall>j. i \<le> j \<and> j < p \<longrightarrow>
           is_optional (co ! j) \<and> bracketed (co ! j) \<and> ?c \<notin> option_set (co ! j)"
  proof (intro allI impI)
    fix j assume j: "i \<le> j \<and> j < p"
    then have k: "j - i < length us" unfolding p_def by auto
    have "co ! j = (us @ ?c # vs) ! (j - i)"
      using nth [of "j - i"] j k by simp
    then have e: "co ! j = us ! (j - i)"
      using k by (simp add: nth_append)
    then have o: "is_optional (co ! j)"
      using us k by simp
    have "co ! j \<in> set co"
      using j pl by simp
    then have "bracketed (co ! j) \<and> option_set (co ! j) \<inter> set (map split_code (s # spl)) = {}"
      using Cons.prems(1) o by blast
    then show "is_optional (co ! j) \<and> bracketed (co ! j) \<and> ?c \<notin> option_set (co ! j)"
      using o by auto
  qed
  have nu: "?c \<notin> set ua"
    using Cons.prems(4) by auto
  have w: "ardf_while co ?c i i ua ret = (p + 1, ua @ [?c], ret + 1)"
    by (rule ardf_while_skip [OF _ pl opt _ cp nu]) (use c cp in \<open>simp_all add: p_def\<close>)
  have dr: "drop (p + 1) co = vs"
  proof -
    have "drop (p + 1) co = drop (length us + 1) (drop i co)"
      unfolding p_def by (simp add: add.commute)
    then show ?thesis using d by simp
  qed
  have ih: "snd (snd (ardf_loop co spl (p + 1) (ua @ [?c]) (ret + 1)))
              = (ret + 1) + int (length spl)"
  proof (rule Cons.IH)
    show "\<forall>cp\<in>set co. is_optional cp \<longrightarrow>
             bracketed cp \<and> option_set cp \<inter> set (map split_code spl) = {}"
      using Cons.prems(1) by auto
    show "map split_code spl = filter (\<lambda>cp. \<not> is_optional cp) (drop (p + 1) co)"
      using vs dr by simp
    show "distinct (map split_code spl)"
      using Cons.prems(3) by simp
    show "set (map split_code spl) \<inter> set (ua @ [?c]) = {}"
      using Cons.prems(3,4) by auto
  qed
  show ?case
    using w ih by simp
qed


lemma ardf_loop_score_bound:
  assumes "ardf_loop co spl 0 [] 0 = (i, ua, ret)"
  shows "0 \<le> ret \<and> ret \<le> int (card (set (map split_code spl)))"
proof -
  have inv: "ret = int (length ua) \<and> distinct ua \<and> set ua \<subseteq> set (map split_code spl)"
    by (rule ardf_loop_invariant [OF assms]) simp_all
  then have "card (set ua) \<le> card (set (map split_code spl))"
    by (simp add: card_mono)
  moreover have "card (set ua) = length ua"
    using inv by (simp add: distinct_card)
  ultimately show ?thesis using inv by simp
qed

lemma calculate_scores_ardf_cases:
  "calculate_scores_ardf race r =
     (case find_course race r of
        None \<Rightarrow> (0, r)
      | Some course \<Rightarrow>
          (if ardf_overrun race r then (0, r\<lparr>status := DISQUALIFIED\<rparr>)
           else (snd (snd (ardf_loop (map control_code (controls course)) (splits r) 0 [] 0)),
                 r)))"
  by (auto simp: calculate_scores_ardf_def ardf_overrun_def split: option.splits prod.splits)

lemma ardf_while_walk:
  "ardf_while co code ini k ua ret =
     (let stop = k + length (takeWhile (\<lambda>cp. is_optional cp \<and> \<not> takes_punch cp code ua)
                               (drop k co))
      in if length co \<le> stop then (stop, ua, ret)
         else if is_optional (co ! stop) then (ini + 1, ua @ [code], ret + 1)
         else if co ! stop \<noteq> code then (ini, ua, ret)
         else if code \<in> set ua then (stop + 1, ua, ret)
         else (stop + 1, ua @ [code], ret + 1))"
proof (induction "length co - k" arbitrary: k)
  case 0
  then have "length co \<le> k" by simp
  then show ?case
    by (subst ardf_while.simps) simp
next
  case (Suc n)
  then have lt: "k < length co" by simp
  have d: "drop k co = co ! k # drop (Suc k) co"
    using lt by (simp add: Cons_nth_drop_Suc)
  have ih: "ardf_while co code ini (k + 1) ua ret =
     (let stop = (k + 1) + length (takeWhile (\<lambda>cp. is_optional cp \<and> \<not> takes_punch cp code ua)
                               (drop (k + 1) co))
      in if length co \<le> stop then (stop, ua, ret)
         else if is_optional (co ! stop) then (ini + 1, ua @ [code], ret + 1)
         else if co ! stop \<noteq> code then (ini, ua, ret)
         else if code \<in> set ua then (stop + 1, ua, ret)
         else (stop + 1, ua @ [code], ret + 1))"
    by (rule Suc.hyps(1)) (use Suc.hyps(2) in simp)
  show ?case
  proof (cases "is_optional (co ! k) \<and> \<not> takes_punch (co ! k) code ua")
    case True
    then have "ardf_while co code ini k ua ret = ardf_while co code ini (k + 1) ua ret"
      using lt
      by (subst ardf_while.simps)
         (auto simp: is_optional_def takes_punch_def bracketed_def option_set_def)
    then show ?thesis
      using True ih d by (simp add: Let_def)
  next
    case False
    then show ?thesis
      using lt d
      by (subst ardf_while.simps)
         (auto simp: is_optional_def takes_punch_def bracketed_def option_set_def Let_def)
  qed
qed

lemma ardf_while_walk_punch:
  "ardf_while co code cursor cursor scored score = walk_punch co code (cursor, scored, score)"
  by (simp add: ardf_while_walk walk_punch_def passed_controls_def)

lemma ardf_loop_foldl:
  "ardf_loop co spl cursor scored score
     = foldl (\<lambda>state code. walk_punch co code state) (cursor, scored, score) (map split_code spl)"
proof (induction spl arbitrary: cursor scored score)
  case Nil
  then show ?case by simp
next
  case (Cons s spl)
  obtain j ub r where w: "walk_punch co (split_code s) (cursor, scored, score) = (j, ub, r)"
    using prod_cases3 by blast
  then show ?case
    using Cons.IH [of j ub r] by (simp add: ardf_while_walk_punch)
qed

lemma ardf_loop_walk_course:
  "ardf_loop co spl 0 [] 0 = walk_course co (map split_code spl)"
  by (simp add: ardf_loop_foldl walk_course_def)

text \<open>
  C6.  Without a course \<open>calculate_scores_ardf\<close> returns 0 and leaves the result alone.
  With a course, when the result time exceeds a maximal time of the group that is not
  zero, it sets the status to \<open>DISQUALIFIED\<close> and returns 0; otherwise it leaves the
  result alone and returns the score of the walk of the course, in which every punch is
  walked as \<open>walk_punch\<close> tells: the loop of the code for one punch is that function.  The
  score lies between 0 and the number of distinct punched codes.  When the punches are
  the controls of the course that are not optional, in their order and each once, and
  every optional control is bracketed and has no punched code among its options, every
  punch scores: the optional controls are passed without loss.  For the course 10,
  20?(20,120), 30 the punches 10, 120, 30 score 3 and the punches 10, 30 score 2; the
  punches 10, 20, 30 score 2, for 20 is no option of the second control as the code
  splits it; out of order, 10, 30, 120 score 2, 30, 120, 10 score 1 and 120, 30 score 0;
  a foreign or a repeated punch costs nothing, so 10, 99, 30 and 10, 10, 30, 30 score 2.
\<close>

theorem calculate_scores_ardf_walk:
  "calculate_scores_ardf race r =
     (case find_course race r of
        None \<Rightarrow> (0, r)
      | Some course \<Rightarrow>
          (if ardf_overrun race r then (0, r\<lparr>status := DISQUALIFIED\<rparr>)
           else (snd (snd (walk_course (map control_code (controls course))
                             (map split_code (splits r)))), r)))
   \<and> ardf_while co code cursor cursor scored score = walk_punch co code (cursor, scored, score)
   \<and> 0 \<le> fst (calculate_scores_ardf race r)
   \<and> fst (calculate_scores_ardf race r) \<le> int (card (set (map split_code (splits r))))
   \<and> (find_course race r = Some course \<and> ardf_overrun race r
        \<longrightarrow> calculate_scores_ardf race r = (0, r\<lparr>status := DISQUALIFIED\<rparr>))
   \<and> (find_course race r = Some course \<and> \<not> ardf_overrun race r
        \<and> (\<forall>cp\<in>set (map control_code (controls course)).
              is_optional cp \<longrightarrow>
                bracketed cp \<and> option_set cp \<inter> set (map split_code (splits r)) = {})
        \<and> map split_code (splits r)
            = filter (\<lambda>cp. \<not> is_optional cp) (map control_code (controls course))
        \<and> distinct (map split_code (splits r))
        \<longrightarrow> calculate_scores_ardf race r = (int (length (splits r)), r))
   \<and> map (\<lambda>codes. fst (calculate_scores_ardf (ardf_race_of [''10'', ''20?(20,120)'', ''30''])
                         (ardf_result 3600000 codes 3000000)))
       [[''10'', ''120'', ''30''], [''10'', ''30''], [''10'', ''20'', ''30''],
        [''10'', ''30'', ''120''], [''30'', ''120'', ''10''], [''120'', ''30''],
        [''10'', ''99'', ''30''], [''10'', ''10'', ''30'', ''30'']]
     = [3, 2, 2, 2, 1, 0, 2, 2]"
proof -
  have cases_eq: "calculate_scores_ardf race r =
     (case find_course race r of
        None \<Rightarrow> (0, r)
      | Some course \<Rightarrow>
          (if ardf_overrun race r then (0, r\<lparr>status := DISQUALIFIED\<rparr>)
           else (snd (snd (walk_course (map control_code (controls course))
                             (map split_code (splits r)))), r)))"
    by (simp add: calculate_scores_ardf_cases ardf_loop_walk_course split: option.splits)
  have step: "ardf_while co code cursor cursor scored score
                = walk_punch co code (cursor, scored, score)"
    by (rule ardf_while_walk_punch)
  have bound: "0 \<le> fst (calculate_scores_ardf race r)
     \<and> fst (calculate_scores_ardf race r) \<le> int (card (set (map split_code (splits r))))"
  proof (cases "find_course race r")
    case None
    then show ?thesis by (simp add: calculate_scores_ardf_cases)
  next
    case (Some c)
    obtain i ua ret where l: "ardf_loop (map control_code (controls c)) (splits r) 0 [] 0
                                = (i, ua, ret)"
      using prod_cases3 by blast
    show ?thesis
      using Some l ardf_loop_score_bound [OF l]
      by (simp add: calculate_scores_ardf_cases)
  qed
  have dsq: "calculate_scores_ardf race r = (0, r\<lparr>status := DISQUALIFIED\<rparr>)"
    if "find_course race r = Some course \<and> ardf_overrun race r"
    using that by (simp add: calculate_scores_ardf_cases)
  have full: "calculate_scores_ardf race r = (int (length (splits r)), r)"
    if h: "find_course race r = Some course \<and> \<not> ardf_overrun race r
        \<and> (\<forall>cp\<in>set (map control_code (controls course)).
              is_optional cp \<longrightarrow>
                bracketed cp \<and> option_set cp \<inter> set (map split_code (splits r)) = {})
        \<and> map split_code (splits r)
            = filter (\<lambda>cp. \<not> is_optional cp) (map control_code (controls course))
        \<and> distinct (map split_code (splits r))"
  proof -
    have h1: "\<forall>cp\<in>set (map control_code (controls course)).
              is_optional cp \<longrightarrow>
                bracketed cp \<and> option_set cp \<inter> set (map split_code (splits r)) = {}"
      using h by blast
    have h2: "map split_code (splits r)
            = filter (\<lambda>cp. \<not> is_optional cp) (drop 0 (map control_code (controls course)))"
      using h by simp
    have h3: "distinct (map split_code (splits r))"
      using h by blast
    have h4: "set (map split_code (splits r)) \<inter> set [] = {}"
      by simp
    have "snd (snd (ardf_loop (map control_code (controls course)) (splits r) 0 [] 0))
            = 0 + int (length (splits r))"
      by (rule ardf_loop_skip [OF h1 h2 h3 h4])
    then show ?thesis
      using h by (simp add: calculate_scores_ardf_cases)
  qed
  have ex: "map (\<lambda>codes. fst (calculate_scores_ardf (ardf_race_of [''10'', ''20?(20,120)'', ''30''])
                         (ardf_result 3600000 codes 3000000)))
       [[''10'', ''120'', ''30''], [''10'', ''30''], [''10'', ''20'', ''30''],
        [''10'', ''30'', ''120''], [''30'', ''120'', ''10''], [''120'', ''30''],
        [''10'', ''99'', ''30''], [''10'', ''10'', ''30'', ''30'']]
     = [3, 2, 2, 2, 1, 0, 2, 2]"
    by code_simp
  show ?thesis
    using cases_eq step bound dsq full ex by blast
qed

theorem calculate_scores_ardf_walk_witness:
  "find_course (ardf_race_of [''10'', ''20?(20,120)'', ''30''])
       (ardf_result 3600000 [''10'', ''30''] 3660000)
     = Some \<lparr>controls = map plain_control [''10'', ''20?(20,120)'', ''30''], course_length = 0\<rparr>
   \<and> ardf_overrun (ardf_race_of [''10'', ''20?(20,120)'', ''30''])
       (ardf_result 3600000 [''10'', ''30''] 3660000)
   \<and> calculate_scores_ardf (ardf_race_of [''10'', ''20?(20,120)'', ''30''])
       (ardf_result 3600000 [''10'', ''30''] 3660000)
       = (0, (ardf_result 3600000 [''10'', ''30''] 3660000)\<lparr>status := DISQUALIFIED\<rparr>)
   \<and> \<not> ardf_overrun (ardf_race_of [''10'', ''20?(20,120)'', ''30''])
         (ardf_result 3600000 [''10'', ''30''] 3000000)
   \<and> list_all (\<lambda>cp. \<not> is_optional cp
                  \<or> (bracketed cp
                      \<and> option_set cp
                          \<inter> set (map split_code
                                   (splits (ardf_result 3600000 [''10'', ''30''] 3000000)))
                         = {}))
         (map control_code (map plain_control [''10'', ''20?(20,120)'', ''30'']))
   \<and> map split_code (splits (ardf_result 3600000 [''10'', ''30''] 3000000))
       = filter (\<lambda>cp. \<not> is_optional cp)
           (map control_code (map plain_control [''10'', ''20?(20,120)'', ''30'']))
   \<and> distinct (map split_code (splits (ardf_result 3600000 [''10'', ''30''] 3000000)))
   \<and> calculate_scores_ardf (ardf_race_of [''10'', ''20?(20,120)'', ''30''])
       (ardf_result 3600000 [''10'', ''30''] 3000000)
       = (2, ardf_result 3600000 [''10'', ''30''] 3000000)"
proof -
  let ?race = "ardf_race_of [''10'', ''20?(20,120)'', ''30'']"
  let ?late = "ardf_result 3600000 [''10'', ''30''] 3660000"
  let ?r = "ardf_result 3600000 [''10'', ''30''] 3000000"
  let ?course = "\<lparr>controls = map plain_control [''10'', ''20?(20,120)'', ''30''],
                   course_length = 0\<rparr>"
  have c1: "find_course ?race ?late = Some ?course"
    by (simp add: ardf_race_of_def default_race_def)
  have c2: "find_course ?race ?r = Some ?course"
    by (simp add: ardf_race_of_def default_race_def)
  have o1: "ardf_overrun ?race ?late"
    by (simp add: ardf_overrun_def person_group_def ardf_result_def sample_result_def
          sample_person_def sample_group_def ardf_race_of_def default_race_def
          elapsed_result_time_def)
  have o2: "\<not> ardf_overrun ?race ?r"
    by (simp add: ardf_overrun_def person_group_def ardf_result_def sample_result_def
          sample_person_def sample_group_def ardf_race_of_def default_race_def
          elapsed_result_time_def)
  have sp: "map split_code (splits ?r) = [''10'', ''30'']"
    by (simp add: ardf_result_def sample_result_def punch_def)
  have len: "int (length (splits ?r)) = 2"
    by (simp add: ardf_result_def sample_result_def)
  have opt: "map is_optional [''10'', ''20?(20,120)'', ''30''] = [False, True, False]"
    by (simp add: is_optional_def)
  have br: "bracketed ''20?(20,120)''"
    by (simp add: bracketed_def)
  have os: "option_set ''20?(20,120)'' = {''20?(20'', ''120''}"
    by code_simp
  have la: "list_all (\<lambda>cp. \<not> is_optional cp
                  \<or> (bracketed cp
                      \<and> option_set cp \<inter> set (map split_code (splits ?r)) = {}))
         (map control_code (map plain_control [''10'', ''20?(20,120)'', ''30'']))"
    using opt br os unfolding sp by (simp add: plain_control_def)
  have fl: "map split_code (splits ?r)
            = filter (\<lambda>cp. \<not> is_optional cp) (map control_code (controls ?course))"
    using opt unfolding sp by (simp add: plain_control_def)
  have di: "distinct (map split_code (splits ?r))"
    unfolding sp by simp
  have ba: "\<forall>cp\<in>set (map control_code (controls ?course)).
              is_optional cp \<longrightarrow>
                bracketed cp \<and> option_set cp \<inter> set (map split_code (splits ?r)) = {}"
    using la unfolding list_all_iff by auto
  have t1: "calculate_scores_ardf ?race ?late = (0, ?late\<lparr>status := DISQUALIFIED\<rparr>)"
    using c1 o1 calculate_scores_ardf_walk [of ?race ?late _ _ _ _ _ ?course] by blast
  have t2: "calculate_scores_ardf ?race ?r = (2, ?r)"
    using c2 o2 fl di ba len calculate_scores_ardf_walk [of ?race ?r _ _ _ _ _ ?course]
    by metis
  show ?thesis
    using c1 o1 t1 o2 la fl di t2 by simp
qed

text \<open>
  The claim as it stands fails on two inputs.  On the course 10, ?, 30, 40 the punches
  10, 30, 40 are the controls that are not optional, in order, and score 2, not 3: the
  optional control without brackets takes the punch 30 and the cursor stops before the
  control 30, where the punch 40 scores nothing.  And a result without a course that has
  overrun the maximal time of 60 minutes by one minute keeps its status.
\<close>

theorem calculate_scores_ardf_counterexample:
  "map split_code (splits (ardf_result 3600000 [''10'', ''30'', ''40''] 3000000))
     = filter (\<lambda>cp. \<not> is_optional cp) [''10'', ''?'', ''30'', ''40'']
   \<and> calculate_scores_ardf (ardf_race_of [''10'', ''?'', ''30'', ''40''])
       (ardf_result 3600000 [''10'', ''30'', ''40''] 3000000)
       = (2, ardf_result 3600000 [''10'', ''30'', ''40''] 3000000)
   \<and> ardf_overrun (default_race\<lparr>result_processing_mode := ''ardf''\<rparr>)
       (ardf_result 3600000 [''10'', ''30''] 3660000)
   \<and> calculate_scores_ardf (default_race\<lparr>result_processing_mode := ''ardf''\<rparr>)
       (ardf_result 3600000 [''10'', ''30''] 3660000)
       = (0, ardf_result 3600000 [''10'', ''30''] 3660000)
   \<and> status (ardf_result 3600000 [''10'', ''30''] 3660000) = DID_NOT_FINISH"
  by code_simp


section \<open>Notes on the edges of the properties\<close>

text \<open>
  A control that lists only its own number, as \<open>"31(31)"\<close>, adds no wrong choice and is
  no choice-set control: a course of it alone is matched the classic way, and two
  foreign punches cost two penalties.
\<close>

lemma choice_control_without_wrong_choice:
  "\<not> is_choice_control (plain_control ''31(31)'')
   \<and> penalty_calculation number_code (map punch [''99'', ''98'']) [plain_control ''31(31)'']
         False = 2"
  by code_simp

text \<open>
  The options of an ARDF control are what is left between the commas after \<open>?\<close>, \<open>(\<close> and
  \<open>)\<close> have been stripped from both ends of the code.  For \<open>"?(20,120)"\<close> they are 20 and
  120, and on the course 10, ?(20,120), 30 the punches 10, 20, 30 score 3; for
  \<open>"20?(20,120)"\<close> they are \<open>20?(20\<close> and 120.
\<close>

lemma ardf_options_of_code:
  "option_set ''?(20,120)'' = {''20'', ''120''}
   \<and> option_set ''20?(20,120)'' = {''20?(20'', ''120''}
   \<and> fst (calculate_scores_ardf (ardf_race_of [''10'', ''?(20,120)'', ''30''])
          (ardf_result 3600000 [''10'', ''20'', ''30''] 3000000)) = 3"
  by code_simp

text \<open>
  With the credit time enabled, a punch code that is no integer literal, as the Trail-O
  code \<open>"31A"\<close>, makes \<open>checking\<close> raise \<open>ValueError\<close> after the status has been set to \<open>OK\<close>.
\<close>

lemma checking_credit_value_error:
  "ResultChecker_checking (default_race\<lparr>credit_time_enabled := True\<rparr>)
     ((sample_result (Some (sample_person None)) DID_NOT_START 100)\<lparr>splits := [punch ''31A'']\<rparr>)
   = Raise ValueError
       ((sample_result (Some (sample_person None)) OK 100)\<lparr>splits := [punch ''31A'']\<rparr>)"
  by code_simp

end
